theory Spec2Isabelle
  imports Complex_Main
begin

text \<open>
  The surface drag of PrusaSlicer, \<^verbatim>\<open>src/slic3r/GUI/SurfaceDrag.cpp\<close>: the handler of the
  mouse events of a drag over a surface, the start and the step of a drag, the surface
  distance query and the turn of the selected volume to the camera.
\<close>

section \<open>Numbers: C++ double and float\<close>

text \<open>
  A \<^verbatim>\<open>double\<close> is a finite value, one of the two infinities, or NaN. Every arithmetic
  operation computes the exact real result and rounds it to the nearest value of the format,
  ties to the even significand (IEEE 754 binary64: 53 bits, gradual underflow below
  \<open>2 powi - 1022\<close>, infinity from \<open>2 powi 1024\<close> on). A \<^verbatim>\<open>float\<close> is a double that binary32
  holds (24 bits, underflow below \<open>2 powi - 126\<close>, infinity from \<open>2 powi 128\<close> on). The special values
  follow IEEE 754: \<open>0 * \<infinity>\<close>, \<open>\<infinity> - \<infinity>\<close>, \<open>0 / 0\<close> and \<open>\<infinity> / \<infinity>\<close> are NaN, every operation on
  NaN is NaN, every ordered comparison with NaN is false, and \<^verbatim>\<open>x != x\<close> holds for NaN
  alone. Zero has no sign here, sums and products are not fused, and the functions of
  \<^verbatim>\<open>math.h\<close> return the rounded exact value.
\<close>

datatype double = Fin real | PInf | NInf | NaN

fun inf_of_sign :: "real \<Rightarrow> double" where
  "inf_of_sign s = (if 0 < s then PInf else if s < 0 then NInf else NaN)"

fun isfinite :: "double \<Rightarrow> bool" where
  "isfinite (Fin a) = True"
| "isfinite PInf = False"
| "isfinite NInf = False"
| "isfinite NaN = False"

fun isnan :: "double \<Rightarrow> bool" where
  "isnan (Fin a) = False"
| "isnan PInf = False"
| "isnan NInf = False"
| "isnan NaN = True"

text \<open>The integer nearest to \<open>y\<close>, the even one of the two when \<open>y\<close> lies half way.\<close>

definition round_half_even :: "real \<Rightarrow> int" where
  "round_half_even y =
     (let f = \<lfloor>y\<rfloor>; d = y - of_int f
      in if d < 1 / 2 then f else if 1 / 2 < d then f + 1 else if even f then f else f + 1)"

text \<open>
  Rounding to a format of \<open>p\<close> significant bits whose normal values have the exponents
  \<open>emin\<close> to \<open>emax\<close>: the values of the format near \<open>x\<close> are the multiples of
  \<open>2\<close> to the power \<open>quantum_exponent p emin x\<close>.
\<close>

definition quantum_exponent :: "nat \<Rightarrow> int \<Rightarrow> real \<Rightarrow> int" where
  "quantum_exponent p emin x = max \<lfloor>log 2 \<bar>x\<bar>\<rfloor> emin - (int p - 1)"

definition round_to :: "nat \<Rightarrow> int \<Rightarrow> int \<Rightarrow> real \<Rightarrow> double" where
  "round_to p emin emax x =
     (if x = 0 then Fin 0
      else
        let q = 2 powi quantum_exponent p emin x;
            y = of_int (round_half_even (x / q)) * q
        in if 2 powi (emax + 1) \<le> \<bar>y\<bar> then inf_of_sign x else Fin y)"

definition round_double :: "real \<Rightarrow> double" where
  "round_double = round_to 53 (- 1022) 1023"

definition round_float :: "real \<Rightarrow> double" where
  "round_float = round_to 24 (- 126) 127"

text \<open>\<^verbatim>\<open>static_cast<float>\<close> of a double.\<close>

fun to_float :: "double \<Rightarrow> double" where
  "to_float (Fin a) = round_float a"
| "to_float PInf = PInf"
| "to_float NInf = NInf"
| "to_float NaN = NaN"

text \<open>Sum, product and quotient, rounded by \<open>rnd\<close>.\<close>

fun plus_rounded :: "(real \<Rightarrow> double) \<Rightarrow> double \<Rightarrow> double \<Rightarrow> double" where
  "plus_rounded rnd (Fin a) (Fin b) = rnd (a + b)"
| "plus_rounded rnd (Fin a) PInf = PInf"
| "plus_rounded rnd (Fin a) NInf = NInf"
| "plus_rounded rnd PInf (Fin b) = PInf"
| "plus_rounded rnd NInf (Fin b) = NInf"
| "plus_rounded rnd PInf PInf = PInf"
| "plus_rounded rnd NInf NInf = NInf"
| "plus_rounded rnd PInf NInf = NaN"
| "plus_rounded rnd NInf PInf = NaN"
| "plus_rounded rnd NaN y = NaN"
| "plus_rounded rnd x NaN = NaN"

fun times_rounded :: "(real \<Rightarrow> double) \<Rightarrow> double \<Rightarrow> double \<Rightarrow> double" where
  "times_rounded rnd (Fin a) (Fin b) = rnd (a * b)"
| "times_rounded rnd (Fin a) PInf = inf_of_sign a"
| "times_rounded rnd (Fin a) NInf = inf_of_sign (- a)"
| "times_rounded rnd PInf (Fin b) = inf_of_sign b"
| "times_rounded rnd NInf (Fin b) = inf_of_sign (- b)"
| "times_rounded rnd PInf PInf = PInf"
| "times_rounded rnd NInf NInf = PInf"
| "times_rounded rnd PInf NInf = NInf"
| "times_rounded rnd NInf PInf = NInf"
| "times_rounded rnd NaN y = NaN"
| "times_rounded rnd x NaN = NaN"

fun divide_rounded :: "(real \<Rightarrow> double) \<Rightarrow> double \<Rightarrow> double \<Rightarrow> double" where
  "divide_rounded rnd (Fin a) (Fin b) = (if b = 0 then inf_of_sign a else rnd (a / b))"
| "divide_rounded rnd (Fin a) PInf = Fin 0"
| "divide_rounded rnd (Fin a) NInf = Fin 0"
| "divide_rounded rnd PInf (Fin b) = (if b < 0 then NInf else PInf)"
| "divide_rounded rnd NInf (Fin b) = (if b < 0 then PInf else NInf)"
| "divide_rounded rnd PInf PInf = NaN"
| "divide_rounded rnd NInf NInf = NaN"
| "divide_rounded rnd PInf NInf = NaN"
| "divide_rounded rnd NInf PInf = NaN"
| "divide_rounded rnd NaN y = NaN"
| "divide_rounded rnd x NaN = NaN"

text \<open>The product of two floats.\<close>

definition times_float :: "double \<Rightarrow> double \<Rightarrow> double" where
  "times_float = times_rounded round_float"

instantiation double :: "{zero, one, plus, uminus, times, divide, abs}"
begin

definition zero_double :: double where
  "zero_double = Fin 0"

definition one_double :: double where
  "one_double = Fin 1"

fun uminus_double :: "double \<Rightarrow> double" where
  "uminus_double (Fin a) = Fin (- a)"
| "uminus_double PInf = NInf"
| "uminus_double NInf = PInf"
| "uminus_double NaN = NaN"

definition plus_double :: "double \<Rightarrow> double \<Rightarrow> double" where
  "plus_double = plus_rounded round_double"

definition times_double :: "double \<Rightarrow> double \<Rightarrow> double" where
  "times_double = times_rounded round_double"

definition divide_double :: "double \<Rightarrow> double \<Rightarrow> double" where
  "divide_double = divide_rounded round_double"

fun abs_double :: "double \<Rightarrow> double" where
  "abs_double (Fin a) = Fin \<bar>a\<bar>"
| "abs_double PInf = PInf"
| "abs_double NInf = PInf"
| "abs_double NaN = NaN"

instance ..

end

instantiation double :: "{minus, inverse, ord}"
begin

definition minus_double :: "double \<Rightarrow> double \<Rightarrow> double" where
  "minus_double x y = x + (- y)"

definition inverse_double :: "double \<Rightarrow> double" where
  "inverse_double x = Fin 1 div x"

fun less_double :: "double \<Rightarrow> double \<Rightarrow> bool" where
  "less_double (Fin a) (Fin b) = (a < b)"
| "less_double (Fin a) PInf = True"
| "less_double (Fin a) NInf = False"
| "less_double PInf y = False"
| "less_double NInf (Fin b) = True"
| "less_double NInf PInf = True"
| "less_double NInf NInf = False"
| "less_double NaN y = False"
| "less_double x NaN = False"

fun less_eq_double :: "double \<Rightarrow> double \<Rightarrow> bool" where
  "less_eq_double (Fin a) (Fin b) = (a \<le> b)"
| "less_eq_double (Fin a) PInf = True"
| "less_eq_double (Fin a) NInf = False"
| "less_eq_double PInf (Fin b) = False"
| "less_eq_double PInf PInf = True"
| "less_eq_double PInf NInf = False"
| "less_eq_double NInf (Fin b) = True"
| "less_eq_double NInf PInf = True"
| "less_eq_double NInf NInf = True"
| "less_eq_double NaN y = False"
| "less_eq_double x NaN = False"

instance ..

end

text \<open>\<^verbatim>\<open>x != y\<close> on doubles: NaN differs from everything, itself included.\<close>

definition not_equal_double :: "double \<Rightarrow> double \<Rightarrow> bool" where
  "not_equal_double x y = (isnan x \<or> isnan y \<or> x \<noteq> y)"

text \<open>\<^verbatim>\<open>std::max(a, b)\<close> is \<^verbatim>\<open>(a < b) ? b : a\<close>.\<close>

definition std_max :: "double \<Rightarrow> double \<Rightarrow> double" where
  "std_max a b = (if a < b then b else a)"

fun std_sqrt :: "double \<Rightarrow> double" where
  "std_sqrt (Fin a) = (if a < 0 then NaN else round_double (sqrt a))"
| "std_sqrt PInf = PInf"
| "std_sqrt NInf = NaN"
| "std_sqrt NaN = NaN"

fun std_sin :: "double \<Rightarrow> double" where
  "std_sin (Fin a) = round_double (sin a)"
| "std_sin x = NaN"

fun std_cos :: "double \<Rightarrow> double" where
  "std_cos (Fin a) = round_double (cos a)"
| "std_cos x = NaN"

fun std_acos :: "double \<Rightarrow> double" where
  "std_acos (Fin a) = (if - 1 \<le> a \<and> a \<le> 1 then round_double (arccos a) else NaN)"
| "std_acos x = NaN"

text \<open>
  \<^verbatim>\<open>M_PI_2\<close> of \<^verbatim>\<open>math.h\<close> is the double nearest to \<open>\<pi> / 2\<close>. It is taken as \<open>\<pi> / 2\<close>
  itself, the exact quarter turn, whose sine and cosine are \<open>1\<close> and \<open>0\<close>.
\<close>

definition M_PI_2 :: double where
  "M_PI_2 = Fin (pi / 2)"

section \<open>Vectors, matrices and affine transforms (Eigen)\<close>

text \<open>
  Vectors and matrices over any scalar: \<^verbatim>\<open>Vec3d\<close> and \<^verbatim>\<open>Matrix3d\<close> are those over
  \<^verbatim>\<open>double\<close>, and the same operations over the reals are the exact arithmetic that the
  doubles round. A sum of three terms adds the third to the sum of the first two.
\<close>

datatype Vec2d = Vec2d (x2: double) (y2: double)

datatype 'a Vec3 = Vec3d (vx: 'a) (vy: 'a) (vz: 'a)

type_synonym Vec3d = "double Vec3"

text \<open>A matrix is given by its three columns, as \<^verbatim>\<open>col(i)\<close> reads them.\<close>

datatype 'a Matrix3 = Matrix3d (col0: "'a Vec3") (col1: "'a Vec3") (col2: "'a Vec3")

type_synonym Matrix3d = "double Matrix3"

definition vadd :: "Vec3d \<Rightarrow> Vec3d \<Rightarrow> Vec3d" where
  "vadd a b = Vec3d (vx a + vx b) (vy a + vy b) (vz a + vz b)"

definition vsub :: "Vec3d \<Rightarrow> Vec3d \<Rightarrow> Vec3d" where
  "vsub a b = Vec3d (vx a - vx b) (vy a - vy b) (vz a - vz b)"

definition vneg :: "Vec3d \<Rightarrow> Vec3d" where
  "vneg a = Vec3d (- vx a) (- vy a) (- vz a)"

definition vscale :: "'a::times Vec3 \<Rightarrow> 'a \<Rightarrow> 'a Vec3" where
  "vscale a s = Vec3d (vx a * s) (vy a * s) (vz a * s)"

definition dot :: "'a::{plus,times} Vec3 \<Rightarrow> 'a Vec3 \<Rightarrow> 'a" where
  "dot a b = vx a * vx b + vy a * vy b + vz a * vz b"

definition cross :: "'a::{minus,times} Vec3 \<Rightarrow> 'a Vec3 \<Rightarrow> 'a Vec3" where
  "cross a b = Vec3d (vy a * vz b - vz a * vy b)
                     (vz a * vx b - vx a * vz b)
                     (vx a * vy b - vy a * vx b)"

definition squaredNorm :: "'a::{plus,times} Vec3 \<Rightarrow> 'a" where
  "squaredNorm a = vx a * vx a + vy a * vy a + vz a * vz a"

definition vdiv :: "Vec3d \<Rightarrow> double \<Rightarrow> Vec3d" where
  "vdiv a s = Vec3d (vx a / s) (vy a / s) (vz a / s)"

text \<open>\<^verbatim>\<open>normalize()\<close> divides by the norm when the squared norm is positive.\<close>

definition normalized :: "Vec3d \<Rightarrow> Vec3d" where
  "normalized a = (let z = squaredNorm a in if Fin 0 < z then vdiv a (std_sqrt z) else a)"

definition finite_vec :: "Vec3d \<Rightarrow> bool" where
  "finite_vec a = (isfinite (vx a) \<and> isfinite (vy a) \<and> isfinite (vz a))"


section \<open>Skew removal of a drag step\<close>

text \<open>
  The block of \<^verbatim>\<open>dragging\<close> commented "Reset skew of the text Z axis": the old Z axis is
  projected onto the normal of the old XY plane.
\<close>

definition reset_skew :: "'a::{plus,minus,times,inverse} Matrix3 \<Rightarrow> 'a Matrix3" where
  "reset_skew world_linear =
     (let old_z = col2 world_linear;
          new_z = cross (col0 world_linear) (col1 world_linear)
      in Matrix3d (col0 world_linear) (col1 world_linear)
           (vscale new_z (dot old_z new_z / squaredNorm new_z)))"

definition mat_vec :: "Matrix3d \<Rightarrow> Vec3d \<Rightarrow> Vec3d" where
  "mat_vec m v =
     Vec3d (vx (col0 m) * vx v + vx (col1 m) * vy v + vx (col2 m) * vz v)
           (vy (col0 m) * vx v + vy (col1 m) * vy v + vy (col2 m) * vz v)
           (vz (col0 m) * vx v + vz (col1 m) * vy v + vz (col2 m) * vz v)"

definition mat_mul :: "Matrix3d \<Rightarrow> Matrix3d \<Rightarrow> Matrix3d" where
  "mat_mul a b = Matrix3d (mat_vec a (col0 b)) (mat_vec a (col1 b)) (mat_vec a (col2 b))"

definition mat_identity :: Matrix3d where
  "mat_identity = Matrix3d (Vec3d (Fin 1) (Fin 0) (Fin 0)) (Vec3d (Fin 0) (Fin 1) (Fin 0))
                           (Vec3d (Fin 0) (Fin 0) (Fin 1))"

text \<open>
  The inverse of a 3x3 matrix as Eigen computes it for this size: the cofactors, scaled by
  the reciprocal of the determinant. Row \<open>i\<close> of the inverse is the cross product of the
  two other columns times \<open>1 / det\<close>.
\<close>

definition mat_inverse :: "Matrix3d \<Rightarrow> Matrix3d" where
  "mat_inverse m =
     (let r0 = cross (col1 m) (col2 m);
          r1 = cross (col2 m) (col0 m);
          r2 = cross (col0 m) (col1 m);
          det = vx r0 * vx (col0 m) + vy r0 * vy (col0 m) + vz r0 * vz (col0 m);
          invdet = Fin 1 / det
      in Matrix3d (Vec3d (vx r0 * invdet) (vx r1 * invdet) (vx r2 * invdet))
                  (Vec3d (vy r0 * invdet) (vy r1 * invdet) (vy r2 * invdet))
                  (Vec3d (vz r0 * invdet) (vz r1 * invdet) (vz r2 * invdet)))"

text \<open>A \<^verbatim>\<open>Transform3d\<close> is affine: a linear part and a translation.\<close>

record Transform3d =
  linear_part :: Matrix3d
  translation :: Vec3d

definition tr_identity :: Transform3d where
  "tr_identity = \<lparr>linear_part = mat_identity, translation = Vec3d (Fin 0) (Fin 0) (Fin 0)\<rparr>"

text \<open>Transform times point, transform times transform, rotation times transform.\<close>

definition tr_point :: "Transform3d \<Rightarrow> Vec3d \<Rightarrow> Vec3d" where
  "tr_point t p = vadd (mat_vec (linear_part t) p) (translation t)"

definition tr_mul :: "Transform3d \<Rightarrow> Transform3d \<Rightarrow> Transform3d" where
  "tr_mul a b = \<lparr>linear_part = mat_mul (linear_part a) (linear_part b),
                 translation = vadd (mat_vec (linear_part a) (translation b)) (translation a)\<rparr>"

definition rot_mul :: "Matrix3d \<Rightarrow> Transform3d \<Rightarrow> Transform3d" where
  "rot_mul r t = \<lparr>linear_part = mat_mul r (linear_part t),
                  translation = mat_vec r (translation t)\<rparr>"

text \<open>Transform times \<^verbatim>\<open>Eigen::Translation\<close>: the translation moves by the transformed vector.\<close>

definition translate :: "Transform3d \<Rightarrow> Vec3d \<Rightarrow> Transform3d" where
  "translate t v = t\<lparr>translation := vadd (translation t) (mat_vec (linear_part t) v)\<rparr>"

definition mat_neg :: "Matrix3d \<Rightarrow> Matrix3d" where
  "mat_neg m = Matrix3d (vneg (col0 m)) (vneg (col1 m)) (vneg (col2 m))"

text \<open>The inverse of an affine transform: the inverse linear part \<open>L\<close>, and \<open>- L * t\<close>.\<close>

definition tr_inverse :: "Transform3d \<Rightarrow> Transform3d" where
  "tr_inverse t =
     (let li = mat_inverse (linear_part t)
      in \<lparr>linear_part = li, translation = mat_vec (mat_neg li) (translation t)\<rparr>)"

text \<open>
  \<^verbatim>\<open>Eigen::AngleAxis(angle, axis)\<close> assigned to a transform: its rotation matrix
  (Rodrigues' formula, as \<^verbatim>\<open>toRotationMatrix\<close> writes it) and no translation.
\<close>

definition AngleAxis :: "double \<Rightarrow> Vec3d \<Rightarrow> Transform3d" where
  "AngleAxis angle axis =
     (let sin_axis = vscale axis (std_sin angle);
          c = std_cos angle;
          cos1_axis = vscale axis (Fin 1 - c);
          txy = vx cos1_axis * vy axis;
          txz = vx cos1_axis * vz axis;
          tyz = vy cos1_axis * vz axis
      in \<lparr>linear_part =
            Matrix3d (Vec3d (vx cos1_axis * vx axis + c) (txy + vz sin_axis) (txz - vy sin_axis))
                     (Vec3d (txy - vz sin_axis) (vy cos1_axis * vy axis + c) (tyz + vx sin_axis))
                     (Vec3d (txz + vy sin_axis) (tyz - vx sin_axis) (vz cos1_axis * vz axis + c)),
          translation = Vec3d (Fin 0) (Fin 0) (Fin 0)\<rparr>)"






definition mat_nan :: Matrix3d where
  "mat_nan = Matrix3d (Vec3d NaN NaN NaN) (Vec3d NaN NaN NaN) (Vec3d NaN NaN NaN)"

section \<open>Scene, model and drag session\<close>

record EmbossShape =
  fix_3mf_tr :: "Transform3d option"
  use_surface :: bool

text \<open>
  \<open>is_the_only_one_part\<close> is the answer of the query \<^verbatim>\<open>ModelVolume::is_the_only_one_part()\<close>,
  whose body is not in these sources.
\<close>

record ModelVolume =
  volume_id :: nat
  is_the_only_one_part :: bool
  emboss_shape :: "EmbossShape option"
  volume_matrix :: Transform3d

record ModelInstance =
  instance_matrix :: Transform3d

record ModelObject =
  volumes :: "ModelVolume list"
  instances :: "ModelInstance list"

record GLVolume =
  object_idx :: int
  volume_idx :: int
  instance_idx :: int
  volume_transformation :: Transform3d
  sla_shift_z :: double
  bounding_box_size :: Vec3d

text \<open>
  The canvas: the scene volumes (a \<^verbatim>\<open>GLVolume*\<close> is the position of the volume in
  \<open>gl_volumes\<close>), the selected volume indices in iteration order, the hovered volume, the
  persisted model, the moving and picking switches and the dirty flag. \<open>moves_done\<close> lists the
  labels of the calls of \<^verbatim>\<open>do_move\<close>, which writes the scene transforms into the model.
\<close>

record GLCanvas3D =
  gl_volumes :: "GLVolume list"
  selection :: "nat list"
  first_hover_volume_idx :: int
  objects :: "ModelObject list"
  moving_enabled :: bool
  picking_enabled :: bool
  dirty :: bool
  moves_done :: "string list"

record Hit =
  position :: Vec3d
  normal :: Vec3d
  tr_key :: nat
  squared_distance :: double

text \<open>The drag session, in the order \<^verbatim>\<open>start_dragging\<close> fills it.\<close>

record 'k SurfaceDrag =
  mouse_offset :: Vec2d
  world :: Transform3d
  instance_inv :: Transform3d
  gl_volume :: nat
  condition :: 'k
  start_angle :: "double option"
  start_distance :: "double option"
  exist_hit :: bool
  mouse_offset_without_sla_shift :: Vec2d

text \<open>What the handler reads of a \<^verbatim>\<open>wxMouseEvent\<close>.\<close>

record wxMouseEvent =
  Dragging :: bool
  Moving :: bool
  LeftDown :: bool
  LeftUp :: bool
  GetX :: int
  GetY :: int

text \<open>
  The operations this file calls and does not define: the raycast manager (of state \<open>'r\<close>,
  conditions \<open>'k\<close>, meshes \<open>'m\<close>), the camera \<open>'c\<close>, the approximate comparisons, the emboss
  helpers and the shortest-arc rotation of Eigen's quaternion, as a rotation matrix.
\<close>

record ('r, 'c, 'k, 'm) externals =
  ray_from_camera :: "'r \<Rightarrow> Vec2d \<Rightarrow> 'c \<Rightarrow> 'k \<Rightarrow> Hit option"
  closest_hit :: "'r \<Rightarrow> Vec3d \<Rightarrow> Vec3d \<Rightarrow> 'k \<Rightarrow> Hit option"
  get_transformation :: "'r \<Rightarrow> nat \<Rightarrow> Transform3d"
  actualize :: "'r \<Rightarrow> ModelInstance \<Rightarrow> 'k \<Rightarrow> 'm \<Rightarrow> 'r"
  create_condition :: "ModelVolume list \<Rightarrow> nat \<Rightarrow> 'k"
  create_meshes :: "GLCanvas3D \<Rightarrow> 'k \<Rightarrow> 'm"
  get_dir_forward :: "'c \<Rightarrow> Vec3d"
  project :: "'c \<Rightarrow> Vec3d \<Rightarrow> int \<times> int"
  world_matrix :: "GLVolume \<Rightarrow> Transform3d"
  get_z_base :: "Transform3d \<Rightarrow> Vec3d"
  is_approx :: "double \<Rightarrow> double \<Rightarrow> bool"
  is_approx_vec :: "Vec3d \<Rightarrow> Vec3d \<Rightarrow> bool"
  FromTwoVectors :: "Vec3d \<Rightarrow> Vec3d \<Rightarrow> Matrix3d"
  calc_up :: "Transform3d \<Rightarrow> double \<Rightarrow> double option"
  suggest_up :: "Vec3d \<Rightarrow> double \<Rightarrow> Vec3d"
  apply_transformation :: "double option \<Rightarrow> double option \<Rightarrow> Transform3d \<Rightarrow> Transform3d"

text \<open>
  A dereference of a null or dangling pointer and an access to an empty optional are
  undefined in C++; the model stops there with an error.
\<close>

datatype error = InvalidPointer | EmptyOptional

section \<open>Lookups\<close>

text \<open>
  Modelled from the spec: \<^verbatim>\<open>get_selected_gl_volume\<close>, \<^verbatim>\<open>get_model_object\<close>,
  \<^verbatim>\<open>get_model_instance\<close> and \<^verbatim>\<open>get_model_volume\<close> are declared outside these sources. The
  selected volume is the single selected scene volume; a scene volume's object, instance
  and volume index identify the model entity it shows, and a lookup whose index is negative
  or out of range answers null.
\<close>

definition get_selected_gl_volume :: "GLCanvas3D \<Rightarrow> nat option" where
  "get_selected_gl_volume canvas =
     (case selection canvas of
        [i] \<Rightarrow> if i < length (gl_volumes canvas) then Some i else None
      | _ \<Rightarrow> None)"

definition lookup :: "'a list \<Rightarrow> int \<Rightarrow> 'a option" where
  "lookup xs i = (if i < 0 \<or> int (length xs) \<le> i then None else Some (xs ! nat i))"

definition get_model_object :: "GLVolume \<Rightarrow> ModelObject list \<Rightarrow> ModelObject option" where
  "get_model_object v objs = lookup objs (object_idx v)"

definition get_model_instance :: "GLVolume \<Rightarrow> ModelObject \<Rightarrow> ModelInstance option" where
  "get_model_instance v object = lookup (instances object) (instance_idx v)"

definition get_model_volume_of :: "GLVolume \<Rightarrow> ModelObject \<Rightarrow> ModelVolume option" where
  "get_model_volume_of v object = lookup (volumes object) (volume_idx v)"

definition get_model_volume :: "GLVolume \<Rightarrow> ModelObject list \<Rightarrow> ModelVolume option" where
  "get_model_volume v objs =
     (case get_model_object v objs of
        None \<Rightarrow> None
      | Some object \<Rightarrow> get_model_volume_of v object)"

section \<open>Surface distance\<close>

text \<open>
  The bounds of the squared surface distance, \<^verbatim>\<open>surface_distance_sq{1e-4, 10.}\<close>: the
  literal \<^verbatim>\<open>1e-4\<close> is the double nearest to it.
\<close>

definition surface_distance_sq_min :: double where
  "surface_distance_sq_min = round_double (1 / 10000)"

definition surface_distance_sq_max :: double where
  "surface_distance_sq_max = Fin 10"

text \<open>
  \<^verbatim>\<open>calc_distance(gl_volume, raycaster, condition)\<close>. \<^verbatim>\<open>std::pow(x, 2)\<close> is \<open>x * x\<close>. The
  sign is a float, and so is the root after its cast; their product is the float returned.
\<close>

definition calc_distance ::
  "('r, 'c, 'k, 'm) externals \<Rightarrow> GLVolume \<Rightarrow> 'r \<Rightarrow> 'k \<Rightarrow> double option" where
  "calc_distance ext gl_vol raycaster cond =
     (let w = world_matrix ext gl_vol;
          p = translation w;
          dir = vneg (get_z_base ext w)
      in case closest_hit ext raycaster p dir cond of
           None \<Rightarrow> None
         | Some hit \<Rightarrow>
             let tr = get_transformation ext raycaster (tr_key hit);
                 hit_world = tr_point tr (position hit);
                 p_to_hit = vsub hit_world p;
                 distance_sq = squaredNorm p_to_hit
             in if distance_sq < surface_distance_sq_min then None
                else
                  let two_z = Fin 2 * vz (bounding_box_size gl_vol);
                      max_squared_distance = std_max (two_z * two_z) surface_distance_sq_max
                  in if max_squared_distance < distance_sq then None
                     else
                       let sign = (if Fin 0 < dot p_to_hit dir then Fin 1 else Fin (- 1))
                       in Some (times_float sign (to_float (std_sqrt distance_sq))))"

section \<open>World matrix without the baked 3mf transformation\<close>

definition world_matrix_fixed ::
  "('r, 'c, 'k, 'm) externals \<Rightarrow> GLVolume \<Rightarrow> ModelObject list \<Rightarrow> Transform3d" where
  "world_matrix_fixed ext gl_vol objs =
     (let res = world_matrix ext gl_vol
      in case get_model_volume gl_vol objs of
           None \<Rightarrow> res
         | Some mv \<Rightarrow>
             (case emboss_shape mv of
                None \<Rightarrow> res
              | Some es \<Rightarrow>
                  (case fix_3mf_tr es of
                     None \<Rightarrow> res
                   | Some fix \<Rightarrow> tr_mul res (tr_inverse fix))))"

definition world_matrix_fixed_selection ::
  "('r, 'c, 'k, 'm) externals \<Rightarrow> GLCanvas3D \<Rightarrow> Transform3d" where
  "world_matrix_fixed_selection ext canvas =
     (case get_selected_gl_volume canvas of
        None \<Rightarrow> tr_identity
      | Some g \<Rightarrow> world_matrix_fixed ext (gl_volumes canvas ! g) (objects canvas))"

section \<open>Face the selected volume to the camera\<close>

text \<open>\<^verbatim>\<open>get_model_volume(...)->set_transformation(res)\<close> on the persisted model.\<close>

definition set_transformation :: "GLVolume \<Rightarrow> Transform3d \<Rightarrow> ModelObject list \<Rightarrow> ModelObject list" where
  "set_transformation v res objs =
     (let oi = nat (object_idx v); vi = nat (volume_idx v); object = objs ! oi
      in objs[oi := object\<lparr>volumes := (volumes object)[vi := (volumes object ! vi)\<lparr>volume_matrix := res\<rparr>]\<rparr>])"

definition face_selected_volume_to_camera ::
  "('r, 'c, 'k, 'm) externals \<Rightarrow> 'c \<Rightarrow> GLCanvas3D \<Rightarrow> error + bool \<times> GLCanvas3D" where
  "face_selected_volume_to_camera ext camera canvas =
     (let cam_dir = get_dir_forward ext camera
      in case selection canvas of
           [] \<Rightarrow> Inr (False, canvas)
         | first_idx # _ \<Rightarrow>
             let to_world = world_matrix_fixed_selection ext canvas;
                 cam_dir_tr = normalized (mat_vec (linear_part (tr_inverse to_world)) cam_dir);
                 emboss_dir = Vec3d (Fin 0) (Fin 0) (Fin (- 1))
             in if is_approx_vec ext cam_dir_tr emboss_dir then Inr (False, canvas)
                else if length (gl_volumes canvas) \<le> first_idx then Inl InvalidPointer
                else
                  let gl_vol = gl_volumes canvas ! first_idx;
                      vol_tr = volume_transformation gl_vol;
                      vol_rot =
                        (if is_approx_vec ext cam_dir_tr (vneg emboss_dir)
                         then AngleAxis M_PI_2 (Vec3d (Fin 0) (Fin 1) (Fin 0))
                         else
                           let axe = normalized (cross emboss_dir cam_dir_tr);
                               angle = std_acos (dot emboss_dir cam_dir_tr)
                           in AngleAxis angle axe);
                      offset = tr_point vol_tr (Vec3d (Fin 0) (Fin 0) (Fin 0));
                      offset_inv = tr_point (tr_inverse vol_rot) offset;
                      res = translate (tr_mul (translate vol_tr (vneg offset)) vol_rot) offset_inv
                  in (case get_model_volume gl_vol (objects canvas) of
                       None \<Rightarrow> Inl InvalidPointer
                     | Some mv \<Rightarrow>
                         Inr (True,
                              canvas\<lparr>gl_volumes := (gl_volumes canvas)
                                        [first_idx := gl_vol\<lparr>volume_transformation := res\<rparr>],
                                     objects := set_transformation gl_vol res (objects canvas)\<rparr>)))"

section \<open>The drag controller\<close>

definition cast_double :: "int \<times> int \<Rightarrow> Vec2d" where
  "cast_double c = Vec2d (Fin (real_of_int (fst c))) (Fin (real_of_int (snd c)))"

definition v2add :: "Vec2d \<Rightarrow> Vec2d \<Rightarrow> Vec2d" where
  "v2add a b = Vec2d (x2 a + x2 b) (y2 a + y2 b)"

definition v2sub :: "Vec2d \<Rightarrow> Vec2d \<Rightarrow> Vec2d" where
  "v2sub a b = Vec2d (x2 a - x2 b) (y2 a - y2 b)"

definition mouse_position :: "wxMouseEvent \<Rightarrow> Vec2d" where
  "mouse_position mouse_event = cast_double (GetX mouse_event, GetY mouse_event)"

text \<open>
  The result of a handler: what it returns, the session, the canvas and the raycast
  manager after the call. The \<^verbatim>\<open>assert\<close>s of the source are those of a release build:
  they do nothing, and the checks that follow them decide.
\<close>

type_synonym ('r, 'k) handled = "error + bool \<times> 'k SurfaceDrag option \<times> GLCanvas3D \<times> 'r"

definition start_dragging ::
  "('r, 'c, 'k, 'm) externals \<Rightarrow> Vec2d \<Rightarrow> 'c \<Rightarrow> 'k SurfaceDrag option \<Rightarrow> GLCanvas3D \<Rightarrow> 'r \<Rightarrow>
     double option \<Rightarrow> ('r, 'k) handled" where
  "start_dragging ext mouse_pos camera surface_drag canvas raycast_manager up_limit =
     (let declined = Inr (False, surface_drag, canvas, raycast_manager)
      in case get_selected_gl_volume canvas of
           None \<Rightarrow> declined
         | Some gl_volume_ptr \<Rightarrow>
             let gl_vol = gl_volumes canvas ! gl_volume_ptr;
                 hovered_idx = first_hover_volume_idx canvas
             in if hovered_idx < 0 then declined
                else if length (gl_volumes canvas) \<le> nat hovered_idx \<or> nat hovered_idx \<noteq> gl_volume_ptr
                then declined
                else
                  (case get_model_object gl_vol (objects canvas) of
                     None \<Rightarrow> declined
                   | Some object \<Rightarrow>
                       (case get_model_instance gl_vol object of
                          None \<Rightarrow> declined
                        | Some instance \<Rightarrow>
                            (case get_model_volume_of gl_vol object of
                               None \<Rightarrow> declined
                             | Some volume \<Rightarrow>
                                 if is_the_only_one_part volume then declined
                                 else
                                   let cond = create_condition ext (volumes object) (volume_id volume);
                                       meshes = create_meshes ext canvas cond;
                                       raycast_manager' = actualize ext raycast_manager instance cond meshes;
                                       to_world = world_matrix_fixed ext gl_vol (objects canvas);
                                       volume_center = translation to_world;
                                       coor = project ext camera volume_center;
                                       mouse_offset = v2sub (cast_double coor) mouse_pos;
                                       mouse_offset_without_sla_shift =
                                         (if \<not> is_approx ext (sla_shift_z gl_vol) (Fin 0)
                                          then
                                            let m = tr_mul (instance_matrix instance) (volume_matrix volume);
                                                to_world_without_sla_move =
                                                  (case emboss_shape volume of
                                                     None \<Rightarrow> m
                                                   | Some es \<Rightarrow>
                                                       (case fix_3mf_tr es of
                                                          None \<Rightarrow> m
                                                        | Some fix \<Rightarrow> tr_mul m fix))
                                            in v2sub (cast_double (project ext camera
                                                     (translation to_world_without_sla_move))) mouse_pos
                                          else mouse_offset);
                                       volume_tr0 = volume_transformation gl_vol;
                                       volume_tr =
                                         (case emboss_shape volume of
                                            None \<Rightarrow> volume_tr0
                                          | Some es \<Rightarrow>
                                              (case fix_3mf_tr es of
                                                 None \<Rightarrow> volume_tr0
                                               | Some fix \<Rightarrow> tr_mul volume_tr0 (tr_inverse fix)));
                                       instance_tr = instance_matrix instance;
                                       instance_tr_inv = tr_inverse instance_tr;
                                       world_tr = tr_mul instance_tr volume_tr;
                                       start_angle =
                                         (case up_limit of
                                            None \<Rightarrow> None
                                          | Some l \<Rightarrow> calc_up ext world_tr l)
                                   in (case emboss_shape volume of
                                        None \<Rightarrow> Inl EmptyOptional
                                      | Some es \<Rightarrow>
                                          let start_distance =
                                                (if \<not> use_surface es
                                                 then calc_distance ext gl_vol raycast_manager' cond
                                                 else None)
                                          in Inr (True,
                                                  Some \<lparr>mouse_offset = mouse_offset,
                                                        world = world_tr,
                                                        instance_inv = instance_tr_inv,
                                                        gl_volume = gl_volume_ptr,
                                                        condition = cond,
                                                        start_angle = start_angle,
                                                        start_distance = start_distance,
                                                        exist_hit = True,
                                                        mouse_offset_without_sla_shift =
                                                          mouse_offset_without_sla_shift\<rparr>,
                                                  canvas\<lparr>moving_enabled := False,
                                                         picking_enabled := False\<rparr>,
                                                  raycast_manager'))))))"

text \<open>
  The loop "Update transformation for all instances" of \<^verbatim>\<open>dragging\<close>: \<open>oi\<close> and \<open>vi\<close> are
  the object and volume index of the dragged volume, which no iteration changes.
\<close>

fun update_instances :: "int \<Rightarrow> int \<Rightarrow> Transform3d \<Rightarrow> GLVolume list \<Rightarrow> GLVolume list" where
  "update_instances oi vi volume_new [] = []"
| "update_instances oi vi volume_new (vol # vols) =
     (if object_idx vol \<noteq> oi \<or> volume_idx vol \<noteq> vi
      then vol # update_instances oi vi volume_new vols
      else vol\<lparr>volume_transformation := volume_new\<rparr> # update_instances oi vi volume_new vols)"

text \<open>
  In \<^verbatim>\<open>dragging\<close>, \<^verbatim>\<open>auto world_linear = surface_drag->world.linear()\<close> is a view of
  the session's own matrix, so the assignment to \<^verbatim>\<open>world_linear.col(2)\<close> writes the
  deskewed Z axis into the session.
\<close>

definition deskew_world :: "'k SurfaceDrag \<Rightarrow> 'k SurfaceDrag" where
  "deskew_world sd = sd\<lparr>world := (world sd)\<lparr>linear_part := reset_skew (linear_part (world sd))\<rparr>\<rparr>"

text \<open>
  The geometric solve of a drag step with a hit, on the deskewed session: the new
  volume-local matrix before the check for NaN.
\<close>

definition solve_volume_new ::
  "('r, 'c, 'k, 'm) externals \<Rightarrow> 'k SurfaceDrag \<Rightarrow> Hit \<Rightarrow> double option \<Rightarrow> Transform3d" where
  "solve_volume_new ext sd hit up_limit =
     (let world_linear = linear_part (world sd);
          text_z_world = col2 world_linear;
          z_rotation = FromTwoVectors ext text_z_world (normal hit);
          world_new0 = rot_mul z_rotation (world sd);
          world_new =
            (case up_limit of
               None \<Rightarrow> world_new0
             | Some l \<Rightarrow>
                 let z_world = normalized (col2 (linear_part world_new0));
                     wanted_up = suggest_up ext z_world l;
                     y_world = col1 (linear_part world_new0);
                     y_rotation = FromTwoVectors ext y_world wanted_up
                 in rot_mul y_rotation world_new0);
          world_new_linear = linear_part world_new
      in \<lparr>linear_part = mat_mul (linear_part (instance_inv sd)) world_new_linear,
          translation = tr_point (instance_inv sd) (position hit)\<rparr>)"

text \<open>The part of a drag step after the check: the 3mf fix and the preserved angle and distance.\<close>

definition fix_volume_new ::
  "('r, 'c, 'k, 'm) externals \<Rightarrow> 'k SurfaceDrag \<Rightarrow> ModelVolume option \<Rightarrow> Transform3d \<Rightarrow> Transform3d" where
  "fix_volume_new ext sd volume volume_new =
     (case volume of
        None \<Rightarrow> volume_new
      | Some v \<Rightarrow>
          (case emboss_shape v of
             None \<Rightarrow> volume_new
           | Some es \<Rightarrow>
               apply_transformation ext (start_angle sd) (start_distance sd)
                 (case fix_3mf_tr es of
                    None \<Rightarrow> volume_new
                  | Some fix \<Rightarrow> tr_mul volume_new fix)))"

definition dragging ::
  "('r, 'c, 'k, 'm) externals \<Rightarrow> Vec2d \<Rightarrow> 'c \<Rightarrow> 'k SurfaceDrag option \<Rightarrow> GLCanvas3D \<Rightarrow> 'r \<Rightarrow>
     double option \<Rightarrow> ('r, 'k) handled" where
  "dragging ext mouse_pos camera surface_drag canvas raycast_manager up_limit =
     (case surface_drag of
        None \<Rightarrow> Inl EmptyOptional
      | Some sd0 \<Rightarrow>
          let offseted_mouse = v2add mouse_pos (mouse_offset_without_sla_shift sd0);
              hit = ray_from_camera ext raycast_manager offseted_mouse camera (condition sd0);
              sd1 = sd0\<lparr>exist_hit := (hit \<noteq> None)\<rparr>
          in (case hit of
               None \<Rightarrow> Inr (True, Some sd1, canvas\<lparr>dirty := True\<rparr>, raycast_manager)
             | Some h \<Rightarrow>
                 let sd = deskew_world sd1;
                     volume_new = solve_volume_new ext sd h up_limit;
                     m00 = vx (col0 (linear_part volume_new))
                 in if not_equal_double m00 m00 then Inr (True, Some sd, canvas, raycast_manager)
                    else if length (gl_volumes canvas) \<le> gl_volume sd then Inl InvalidPointer
                    else
                      let dragged = gl_volumes canvas ! gl_volume sd;
                          volume = get_model_volume dragged (objects canvas);
                          volume_new' = fix_volume_new ext sd volume volume_new
                      in Inr (True, Some sd,
                              canvas\<lparr>gl_volumes := update_instances (object_idx dragged)
                                        (volume_idx dragged) volume_new' (gl_volumes canvas),
                                     dirty := True\<rparr>,
                              raycast_manager)))"

definition on_mouse_surface_drag ::
  "('r, 'c, 'k, 'm) externals \<Rightarrow> wxMouseEvent \<Rightarrow> 'c \<Rightarrow> 'k SurfaceDrag option \<Rightarrow> GLCanvas3D \<Rightarrow> 'r \<Rightarrow>
     double option \<Rightarrow> ('r, 'k) handled" where
  "on_mouse_surface_drag ext mouse_event camera surface_drag canvas raycast_manager up_limit =
     (if surface_drag \<noteq> None \<and> \<not> Dragging mouse_event
      then Inr (LeftUp mouse_event, None,
                canvas\<lparr>moves_done := moves_done canvas @ [''Move over surface''],
                       moving_enabled := True, picking_enabled := True\<rparr>,
                raycast_manager)
      else if Moving mouse_event then Inr (False, surface_drag, canvas, raycast_manager)
      else if LeftDown mouse_event
      then start_dragging ext (mouse_position mouse_event) camera surface_drag canvas
             raycast_manager up_limit
      else if surface_drag = None then Inr (False, surface_drag, canvas, raycast_manager)
      else if Dragging mouse_event
      then dragging ext (mouse_position mouse_event) camera surface_drag canvas
             raycast_manager up_limit
      else Inr (False, surface_drag, canvas, raycast_manager))"

text \<open>
  The offset from the anchor of a volume to a hit, in world coordinates, and the forward
  direction of the volume, as \<^verbatim>\<open>calc_distance\<close> computes them.
\<close>

definition p_to_hit :: "('r, 'c, 'k, 'm) externals \<Rightarrow> GLVolume \<Rightarrow> 'r \<Rightarrow> Hit \<Rightarrow> Vec3d" where
  "p_to_hit ext gl_vol raycaster hit =
     vsub (tr_point (get_transformation ext raycaster (tr_key hit)) (position hit))
          (translation (world_matrix ext gl_vol))"

definition forward_dir :: "('r, 'c, 'k, 'm) externals \<Rightarrow> GLVolume \<Rightarrow> Vec3d" where
  "forward_dir ext gl_vol = vneg (get_z_base ext (world_matrix ext gl_vol))"

section \<open>A concrete scene\<close>

text \<open>
  An environment to run the functions in: the ray of every query finds \<open>h\<close>, the raycast
  manager counts its rebuilds, the camera is its forward direction, instances sit at the
  origin, two values are approximately equal when they differ by less than \<open>1e-4\<close>, the
  rotation between two finite vectors of the same direction is the identity and that of a
  non-finite vector is NaN, and no angle or distance is re-applied.
\<close>

definition approx :: "double \<Rightarrow> double \<Rightarrow> bool" where
  "approx a b = (\<bar>a - b\<bar> < Fin (1 / 10000))"

definition scene_ext :: "Hit option \<Rightarrow> (nat, Vec3d, unit, unit) externals" where
  "scene_ext h =
     \<lparr>ray_from_camera = (\<lambda>r m c k. h),
      closest_hit = (\<lambda>r p d k. h),
      get_transformation = (\<lambda>r key. tr_identity),
      actualize = (\<lambda>r i k m. Suc r),
      create_condition = (\<lambda>vs i. ()),
      create_meshes = (\<lambda>c k. ()),
      get_dir_forward = (\<lambda>c. c),
      project = (\<lambda>c p. (0, 0)),
      world_matrix = (\<lambda>v. volume_transformation v),
      get_z_base = (\<lambda>t. normalized (col2 (linear_part t))),
      is_approx = approx,
      is_approx_vec = (\<lambda>a b. approx (vx a) (vx b) \<and> approx (vy a) (vy b) \<and> approx (vz a) (vz b)),
      FromTwoVectors = (\<lambda>a b. if finite_vec a \<and> finite_vec b then mat_identity else mat_nan),
      calc_up = (\<lambda>t l. None),
      suggest_up = (\<lambda>z l. Vec3d (Fin 0) (Fin 1) (Fin 0)),
      apply_transformation = (\<lambda>a d t. t)\<rparr>"

text \<open>
  One object of two volumes, a part and an embossed text, shown by three scene volumes:
  the part, the text, and the text of a second instance. The text is selected and hovered.
\<close>

definition part_volume :: ModelVolume where
  "part_volume = \<lparr>volume_id = 1, is_the_only_one_part = True, emboss_shape = None,
                   volume_matrix = tr_identity\<rparr>"

definition text_volume :: ModelVolume where
  "text_volume = \<lparr>volume_id = 2, is_the_only_one_part = False,
                   emboss_shape = Some \<lparr>fix_3mf_tr = None, use_surface = True\<rparr>,
                   volume_matrix = tr_identity\<rparr>"

definition scene_object :: ModelObject where
  "scene_object = \<lparr>volumes = [part_volume, text_volume],
                    instances = [\<lparr>instance_matrix = tr_identity\<rparr>, \<lparr>instance_matrix = tr_identity\<rparr>]\<rparr>"

definition scene_volume :: "int \<Rightarrow> int \<Rightarrow> GLVolume" where
  "scene_volume vi ii = \<lparr>object_idx = 0, volume_idx = vi, instance_idx = ii,
                          volume_transformation = tr_identity, sla_shift_z = Fin 0,
                          bounding_box_size = Vec3d (Fin 1) (Fin 1) (Fin 1)\<rparr>"

definition scene :: GLCanvas3D where
  "scene = \<lparr>gl_volumes = [scene_volume 0 0, scene_volume 1 0, scene_volume 1 1],
            selection = [1], first_hover_volume_idx = 1, objects = [scene_object],
            moving_enabled = False, picking_enabled = False, dirty = False, moves_done = []\<rparr>"

definition session :: "unit SurfaceDrag" where
  "session = \<lparr>mouse_offset = Vec2d (Fin 0) (Fin 0), world = tr_identity,
              instance_inv = tr_identity, gl_volume = 1, condition = (),
              start_angle = None, start_distance = None, exist_hit = True,
              mouse_offset_without_sla_shift = Vec2d (Fin 0) (Fin 0)\<rparr>"

definition mouse :: "bool \<Rightarrow> bool \<Rightarrow> wxMouseEvent" where
  "mouse is_dragging is_left_up = \<lparr>Dragging = is_dragging, Moving = False, LeftDown = False,
                                    LeftUp = is_left_up, GetX = 0, GetY = 0\<rparr>"

definition hit_at :: "Vec3d \<Rightarrow> Hit" where
  "hit_at p = \<lparr>position = p, normal = Vec3d (Fin 0) (Fin 0) (Fin 1), tr_key = 0,
               squared_distance = Fin 1\<rparr>"



text \<open>The same scene with its part selected and hovered.\<close>

definition part_selected :: GLCanvas3D where
  "part_selected = scene\<lparr>selection := [0], first_hover_volume_idx := 0\<rparr>"

text \<open>
  The local transform of a drag step with the hit \<open>h\<close>: the solve on the deskewed session,
  then the 3mf fix and the preserved angle and distance for the model volume of the dragged
  scene volume.
\<close>

definition step_session :: "'k SurfaceDrag \<Rightarrow> 'k SurfaceDrag" where
  "step_session sd = deskew_world (sd\<lparr>exist_hit := True\<rparr>)"

definition step_transform ::
  "('r, 'c, 'k, 'm) externals \<Rightarrow> 'k SurfaceDrag \<Rightarrow> GLCanvas3D \<Rightarrow> Hit \<Rightarrow> double option \<Rightarrow> Transform3d" where
  "step_transform ext sd canvas h up_limit =
     fix_volume_new ext (step_session sd)
       (get_model_volume (gl_volumes canvas ! gl_volume sd) (objects canvas))
       (solve_volume_new ext (step_session sd) h up_limit)"

text \<open>Whether a scene volume shows the same (object, volume) pair as the dragged one.\<close>

definition same_identity :: "GLVolume \<Rightarrow> GLVolume \<Rightarrow> bool" where
  "same_identity vol dragged =
     (object_idx vol = object_idx dragged \<and> volume_idx vol = volume_idx dragged)"


definition near_hit :: Hit where
  "near_hit = hit_at (Vec3d (Fin 1) (Fin 2) (Fin 3))"

definition moved :: "Vec3d \<Rightarrow> GLVolume \<Rightarrow> GLVolume" where
  "moved t vol = vol\<lparr>volume_transformation := \<lparr>linear_part = mat_identity, translation = t\<rparr>\<rparr>"

text \<open>
  A scene whose object has two plain parts and no embossed shape; the first is selected and
  hovered.
\<close>

definition plain_volume :: ModelVolume where
  "plain_volume = \<lparr>volume_id = 3, is_the_only_one_part = False, emboss_shape = None,
                    volume_matrix = tr_identity\<rparr>"

definition plain_object :: ModelObject where
  "plain_object = \<lparr>volumes = [plain_volume, plain_volume],
                    instances = [\<lparr>instance_matrix = tr_identity\<rparr>]\<rparr>"

definition plain_scene :: GLCanvas3D where
  "plain_scene = \<lparr>gl_volumes = [scene_volume 0 0, scene_volume 1 0],
                  selection = [0], first_hover_volume_idx = 0, objects = [plain_object],
                  moving_enabled = True, picking_enabled = True, dirty = False, moves_done = []\<rparr>"

text \<open>
  The bound of the surface distance query, \<open>max(4 * depth\<^sup>2, 10)\<close>, with \<open>4 * depth\<^sup>2\<close>
  computed as the square of twice the depth.
\<close>

definition max_squared_distance :: "GLVolume \<Rightarrow> double" where
  "max_squared_distance gl_vol =
     std_max ((Fin 2 * vz (bounding_box_size gl_vol)) * (Fin 2 * vz (bounding_box_size gl_vol)))
       (Fin 10)"

text \<open>A quarter turn about Y, and the direction from the origin to the camera.\<close>

definition quarter_turn :: Transform3d where
  "quarter_turn = \<lparr>linear_part = Matrix3d (Vec3d (Fin 0) (Fin 0) (Fin (- 1)))
                                           (Vec3d (Fin 0) (Fin 1) (Fin 0))
                                           (Vec3d (Fin 1) (Fin 0) (Fin 0)),
                    translation = Vec3d (Fin 0) (Fin 0) (Fin 0)\<rparr>"

definition behind :: Vec3d where
  "behind = Vec3d (Fin 0) (Fin 0) (Fin 1)"

definition ahead :: Vec3d where
  "ahead = Vec3d (Fin 0) (Fin 0) (Fin (- 1))"

text \<open>
  Three hits ahead of the text: at a hundredth (the double nearest to \<open>0.01\<close>), at
  \<open>(0, 1, - 3)\<close> with the squared distance ten, and at \<open>1 + 2 powi - 30\<close>.
\<close>

definition hundredth_hit :: Hit where
  "hundredth_hit = hit_at (Vec3d (Fin 0) (Fin 0) (Fin (- (5764607523034235 / 576460752303423488))))"

definition root_ten_hit :: Hit where
  "root_ten_hit = hit_at (Vec3d (Fin 0) (Fin 1) (Fin (- 3)))"

definition fine_hit :: Hit where
  "fine_hit = hit_at (Vec3d (Fin 0) (Fin 0) (Fin (- (1073741825 / 1073741824))))"

section \<open>Rounding\<close>

lemma floor_log2_eq:
  assumes "2 powi k \<le> \<bar>x\<bar>" and "\<bar>x\<bar> < 2 powi (k + 1)"
  shows "\<lfloor>log 2 \<bar>x\<bar>\<rfloor> = k"
proof -
  have pos: "0 < \<bar>x\<bar>"
    using assms(1) by (smt (verit) zero_less_power_int)
  have e: "(2::real) powr real_of_int j = 2 powi j" for j
    by (simp add: powr_real_of_int')
  show ?thesis
    using assms pos floor_log_eq_powr_iff [of "\<bar>x\<bar>" 2 k] e [of k] e [of "k + 1"] by simp
qed

lemma floor_log2_bounds:
  assumes "x \<noteq> 0"
  shows "2 powi \<lfloor>log 2 \<bar>x\<bar>\<rfloor> \<le> \<bar>x\<bar>" and "\<bar>x\<bar> < 2 powi (\<lfloor>log 2 \<bar>x\<bar>\<rfloor> + 1)"
proof -
  have pos: "0 < \<bar>x\<bar>" using assms by simp
  have e: "(2::real) powr real_of_int k = 2 powi k" for k
    by (simp add: powr_real_of_int')
  show "2 powi \<lfloor>log 2 \<bar>x\<bar>\<rfloor> \<le> \<bar>x\<bar>" and "\<bar>x\<bar> < 2 powi (\<lfloor>log 2 \<bar>x\<bar>\<rfloor> + 1)"
    using floor_log_eq_powr_iff [of "\<bar>x\<bar>" 2 "\<lfloor>log 2 \<bar>x\<bar>\<rfloor>"] pos
      e [of "\<lfloor>log 2 \<bar>x\<bar>\<rfloor>"] e [of "\<lfloor>log 2 \<bar>x\<bar>\<rfloor> + 1"]
    by simp_all
qed

lemma round_half_even_of_int [simp]: "round_half_even (of_int n) = n"
  by (simp add: round_half_even_def)

lemma round_half_even_eqI:
  assumes "of_int m - 1 / 2 < y" and "y < of_int m + 1 / 2"
  shows "round_half_even y = m"
proof -
  have "\<lfloor>y\<rfloor> = m \<or> \<lfloor>y\<rfloor> = m - 1"
    using assms by linarith
  then show ?thesis
    using assms by (auto simp: round_half_even_def Let_def)
qed

lemma round_half_even_ge: "of_int n \<le> y \<Longrightarrow> n \<le> round_half_even y"
  by (auto simp: round_half_even_def Let_def le_floor_iff) linarith+

lemma round_half_even_le: "y \<le> of_int n \<Longrightarrow> round_half_even y \<le> n"
  by (auto simp: round_half_even_def Let_def) linarith+


lemma two_powi_less_iff: "(2::real) powi m < 2 powi n \<longleftrightarrow> m < n"
proof
  assume "(2::real) powi m < 2 powi n"
  then have "\<not> (2::real) powi n \<le> 2 powi m" by simp
  then have "\<not> n \<le> m"
    using power_int_increasing [of n m "2::real"] by auto
  then show "m < n" by simp
next
  assume "m < n"
  then show "(2::real) powi m < 2 powi n"
    by (simp add: power_int_strict_increasing)
qed

lemma two_powi_le_iff: "(2::real) powi m \<le> 2 powi n \<longleftrightarrow> m \<le> n"
  using two_powi_less_iff [of n m] by (auto simp: not_less [symmetric])

lemma two_powi_nonneg: "0 \<le> d \<Longrightarrow> (2::real) powi d = of_int (2 ^ nat d)"
  by (simp add: power_int_def)

lemma quantum_exponent_eq:
  assumes "2 powi k \<le> \<bar>x\<bar>" and "\<bar>x\<bar> < 2 powi (k + 1)"
  shows "quantum_exponent p emin x = max k emin - (int p - 1)"
  using floor_log2_eq [OF assms] by (simp add: quantum_exponent_def)

lemma round_to_eval:
  assumes "2 powi k \<le> \<bar>x\<bar>" and "\<bar>x\<bar> < 2 powi (k + 1)"
    and "round_half_even (x / 2 powi (max k emin - (int p - 1))) = m"
    and "\<bar>real_of_int m * 2 powi (max k emin - (int p - 1))\<bar> < 2 powi (emax + 1)"
  shows "round_to p emin emax x = Fin (of_int m * 2 powi (max k emin - (int p - 1)))"
proof -
  have "x \<noteq> 0"
    using assms(1) by (smt (verit) zero_less_power_int)
  then show ?thesis
    using assms(3,4) by (simp add: round_to_def quantum_exponent_eq [OF assms(1,2)] Let_def)
qed

lemma round_to_representable:
  assumes x: "x = of_int m * 2 powi e" and m: "\<bar>m\<bar> < 2 ^ p"
    and e: "emin - (int p - 1) \<le> e" and r: "\<bar>x\<bar> < 2 powi (emax + 1)"
  shows "round_to p emin emax x = Fin x"
proof (cases "x = 0")
  case True
  then show ?thesis by (simp add: round_to_def)
next
  case False
  define k where "k = \<lfloor>log 2 \<bar>x\<bar>\<rfloor>"
  define qe where "qe = quantum_exponent p emin x"
  have lo: "2 powi k \<le> \<bar>x\<bar>"
    unfolding k_def using floor_log2_bounds(1) [OF False] .
  have "\<bar>x\<bar> < 2 ^ p * 2 powi e"
  proof -
    have "\<bar>x\<bar> = of_int \<bar>m\<bar> * 2 powi e"
      by (simp add: x abs_mult)
    moreover have "real_of_int \<bar>m\<bar> < 2 ^ p"
      using m by (metis of_int_less_iff of_int_numeral of_int_power)
    ultimately show ?thesis
      by simp
  qed
  also have "\<dots> = 2 powi (int p + e)"
    by (simp add: power_int_add)
  finally have "2 powi k < (2::real) powi (int p + e)"
    using lo by linarith
  then have "k < int p + e"
    by (simp add: two_powi_less_iff)
  then have qe_le: "qe \<le> e"
    using e by (simp add: qe_def quantum_exponent_def k_def [symmetric])
  have "x / 2 powi qe = of_int m * 2 powi (e - qe)"
    by (simp add: x power_int_diff)
  also have "\<dots> = of_int (m * 2 ^ nat (e - qe))"
    using qe_le by (simp add: two_powi_nonneg)
  finally have "round_half_even (x / 2 powi qe) = m * 2 ^ nat (e - qe)"
    by (simp only: round_half_even_of_int)
  moreover have "of_int (m * 2 ^ nat (e - qe)) * 2 powi qe = x"
  proof -
    have "real_of_int (m * 2 ^ nat (e - qe)) * 2 powi qe = of_int m * (2 powi (e - qe) * 2 powi qe)"
      using qe_le by (simp add: two_powi_nonneg)
    also have "\<dots> = of_int m * 2 powi e"
      by (simp add: power_int_add [symmetric])
    finally show ?thesis by (simp add: x)
  qed
  ultimately show ?thesis
    using False r by (simp add: round_to_def Let_def qe_def [symmetric])
qed

lemma round_to_lower:
  assumes "2 powi k \<le> x" and "emin \<le> k" and "0 < p"
  shows "round_to p emin emax x = PInf \<or> (\<exists>y. round_to p emin emax x = Fin y \<and> 2 powi k \<le> y)"
proof -
  have pos: "0 < x"
    using assms(1) by (smt (verit) zero_less_power_int)
  define j where "j = \<lfloor>log 2 \<bar>x\<bar>\<rfloor>"
  define qe where "qe = quantum_exponent p emin x"
  have lo: "2 powi j \<le> x"
    using floor_log2_bounds(1) [of x] pos by (simp add: j_def)
  have hi: "x < 2 powi (j + 1)"
    using floor_log2_bounds(2) [of x] pos by (simp add: j_def)
  have "2 powi k < (2::real) powi (j + 1)"
    using assms(1) hi by linarith
  then have kj: "k \<le> j"
    by (simp add: two_powi_less_iff)
  then have qe: "qe = j - (int p - 1)"
    using assms(2) by (simp add: qe_def quantum_exponent_def j_def [symmetric])
  have "of_int (2 ^ (p - 1)) \<le> x / 2 powi qe"
  proof -
    have "2 powi j / 2 powi qe \<le> x / 2 powi qe"
      using lo by (simp add: divide_right_mono)
    moreover have "2 powi j / (2::real) powi qe = 2 powi (int p - 1)"
      by (simp add: qe power_int_diff [symmetric])
    moreover have "(2::real) powi (int p - 1) = 2 ^ (p - 1)"
      using assms(3) by (simp add: power_int_def nat_diff_distrib')
    ultimately show ?thesis by simp
  qed
  then have "2 ^ (p - 1) \<le> round_half_even (x / 2 powi qe)"
    by (rule round_half_even_ge)
  then have "real_of_int (2 ^ (p - 1)) \<le> of_int (round_half_even (x / 2 powi qe))"
    by linarith
  then have "2 ^ (p - 1) * 2 powi qe \<le> real_of_int (round_half_even (x / 2 powi qe)) * 2 powi qe"
    by (simp add: mult_right_mono)
  moreover have "2 ^ (p - 1) * (2::real) powi qe = 2 powi j"
  proof -
    have "(2::real) ^ (p - 1) = 2 powi (int p - 1)"
      using assms(3) by (simp add: power_int_def nat_diff_distrib')
    then show ?thesis
      by (simp add: qe power_int_add [symmetric])
  qed
  moreover have "2 powi k \<le> (2::real) powi j"
    using kj by (simp add: power_int_increasing)
  ultimately have "2 powi k \<le> real_of_int (round_half_even (x / 2 powi qe)) * 2 powi qe"
    by linarith
  then show ?thesis
    using pos by (simp add: round_to_def Let_def qe_def [symmetric])
qed



lemma round_half_even_abs_le:
  assumes "\<bar>z\<bar> \<le> of_int n"
  shows "\<bar>round_half_even z\<bar> \<le> n"
proof -
  have up: "z \<le> of_int n" and down: "of_int (- n) \<le> z"
    using assms by (simp_all add: abs_le_iff)
  show ?thesis
    using round_half_even_le [OF up] round_half_even_ge [OF down] by simp
qed

lemma round_to_range:
  assumes "round_to p emin emax x = Fin y" and "0 < p"
  shows "\<exists>m e. y = of_int m * 2 powi e \<and> \<bar>m\<bar> < 2 ^ p \<and> emin - (int p - 1) \<le> e \<and>
           \<bar>y\<bar> < 2 powi (emax + 1)"
proof (cases "x = 0")
  case True
  then have "y = 0"
    using assms(1) by (simp add: round_to_def)
  then show ?thesis
    by (intro exI [of _ 0] exI [of _ "emin - (int p - 1)"]) simp
next
  case False
  define j where "j = \<lfloor>log 2 \<bar>x\<bar>\<rfloor>"
  define qe where "qe = quantum_exponent p emin x"
  define m where "m = round_half_even (x / 2 powi qe)"
  have y: "y = of_int m * 2 powi qe" and r: "\<bar>y\<bar> < 2 powi (emax + 1)"
    using assms(1) False
    by (auto simp: round_to_def Let_def qe_def [symmetric] m_def [symmetric] split: if_splits)
  have qe_ge: "emin - (int p - 1) \<le> qe" and qe_j: "j - (int p - 1) \<le> qe"
    by (simp_all add: qe_def quantum_exponent_def j_def [symmetric])
  have "\<bar>x\<bar> < 2 powi (j + 1)"
    using floor_log2_bounds(2) [OF False] by (simp add: j_def)
  also have "\<dots> \<le> 2 powi (qe + int p)"
    using qe_j by (simp add: two_powi_le_iff)
  finally have "\<bar>x\<bar> / 2 powi qe < 2 powi (qe + int p) / 2 powi qe"
    by (simp add: divide_strict_right_mono)
  also have "2 powi (qe + int p) / (2::real) powi qe = of_int (2 ^ p)"
    by (simp add: power_int_add)
  finally have "\<bar>x / 2 powi qe\<bar> \<le> of_int (2 ^ p)"
    by simp
  then have m_le: "\<bar>m\<bar> \<le> 2 ^ p"
    unfolding m_def by (rule round_half_even_abs_le)
  show ?thesis
  proof (cases "\<bar>m\<bar> = 2 ^ p")
    case False
    then have "\<bar>m\<bar> < 2 ^ p"
      using m_le by simp
    then show ?thesis
      using y r qe_ge by blast
  next
    case True
    obtain p' where p': "p = Suc p'"
      using assms(2) by (cases p) auto
    define h where "h = (if 0 \<le> m then 2 ^ p' else - (2 ^ p') :: int)"
    have half: "m = h * 2"
      using True by (auto simp: h_def p' abs_if split: if_splits)
    then have "real_of_int m = of_int h * 2"
      by (metis of_int_mult of_int_numeral)
    then have "y = of_int h * 2 powi (qe + 1)"
      by (simp add: y power_int_add)
    moreover have "\<bar>h\<bar> < 2 ^ p"
      by (simp add: h_def p')
    ultimately show ?thesis
      using r qe_ge by (intro exI [of _ h] exI [of _ "qe + 1"]) simp
  qed
qed

lemma round_to_idem:
  assumes "round_to p emin emax x = Fin y" and "0 < p"
  shows "round_to p emin emax y = Fin y" and "round_to p emin emax (- y) = Fin (- y)"
proof -
  obtain m e where y: "y = of_int m * 2 powi e" and m: "\<bar>m\<bar> < 2 ^ p"
    and e: "emin - (int p - 1) \<le> e" and r: "\<bar>y\<bar> < 2 powi (emax + 1)"
    using round_to_range [OF assms] by blast
  show "round_to p emin emax y = Fin y"
    using y m e r by (rule round_to_representable)
  have ny: "- y = of_int (- m) * 2 powi e" and nm: "\<bar>- m\<bar> < 2 ^ p"
    and nr: "\<bar>- y\<bar> < 2 powi (emax + 1)"
    using y m r by simp_all
  show "round_to p emin emax (- y) = Fin (- y)"
    using ny nm e nr by (rule round_to_representable)
qed

lemma round_to_0 [simp]: "round_to p emin emax 0 = Fin 0"
  by (simp add: round_to_def)

lemma round_to_of_int:
  assumes "\<bar>n\<bar> < 2 ^ p" and "emin - (int p - 1) \<le> 0" and "int p \<le> emax + 1"
  shows "round_to p emin emax (of_int n) = Fin (of_int n)"
proof -
  have "\<bar>real_of_int n\<bar> < 2 ^ p"
    using assms(1) by (metis of_int_abs of_int_less_iff of_int_numeral of_int_power)
  moreover have "(2::real) ^ p = 2 powi (int p)"
    by simp
  moreover have "(2::real) powi (int p) \<le> 2 powi (emax + 1)"
    using assms(3) by (simp only: two_powi_le_iff)
  ultimately have "\<bar>real_of_int n\<bar> < 2 powi (emax + 1)"
    by linarith
  then show ?thesis
    using assms by (intro round_to_representable [where m = n and e = 0]) simp_all
qed

lemma round_double_0 [simp]: "round_double 0 = Fin 0"
  by (simp add: round_double_def)

lemma round_double_1 [simp]: "round_double 1 = Fin 1"
  using round_to_of_int [of 1 53 "- 1022" 1023] by (simp add: round_double_def)

lemma round_double_minus_1 [simp]: "round_double (- 1) = Fin (- 1)"
  using round_to_of_int [of "- 1" 53 "- 1022" 1023] by (simp add: round_double_def)

lemma round_double_numeral [simp]:
  "numeral w < (9007199254740992::int) \<Longrightarrow> round_double (numeral w) = Fin (numeral w)"
  using round_to_of_int [of "numeral w" 53 "- 1022" 1023] by (simp add: round_double_def)

lemma round_double_neg_numeral [simp]:
  "numeral w < (9007199254740992::int) \<Longrightarrow> round_double (- numeral w) = Fin (- numeral w)"
  using round_to_of_int [of "- numeral w" 53 "- 1022" 1023] by (simp add: round_double_def)

lemma round_float_0 [simp]: "round_float 0 = Fin 0"
  by (simp add: round_float_def)

lemma round_float_1 [simp]: "round_float 1 = Fin 1"
  using round_to_of_int [of 1 24 "- 126" 127] by (simp add: round_float_def)

lemma round_float_minus_1 [simp]: "round_float (- 1) = Fin (- 1)"
  using round_to_of_int [of "- 1" 24 "- 126" 127] by (simp add: round_float_def)

text \<open>The error of a rounding in the normal range, relative to the value rounded.\<close>

lemma round_half_even_error: "\<bar>real_of_int (round_half_even t) - t\<bar> \<le> 1 / 2"
  unfolding round_half_even_def Let_def by (auto split: if_splits)

lemma round_to_error:
  assumes low: "2 powi emin \<le> x" and r: "round_to p emin emax x = Fin y"
  shows "\<bar>y - x\<bar> \<le> 2 powi (- int p) * x"
proof -
  have pos: "0 < x"
    using low by (smt (verit) zero_less_power_int)
  define e where "e = \<lfloor>log 2 \<bar>x\<bar>\<rfloor>"
  have b: "2 powi e \<le> x" "x < 2 powi (e + 1)"
    using floor_log2_bounds [of x] pos by (simp_all add: e_def)
  have "(2::real) powi emin < 2 powi (e + 1)"
    using low b(2) by linarith
  then have le: "emin \<le> e"
    by (simp add: two_powi_less_iff)
  define q :: real where "q = 2 powi (e - (int p - 1))"
  have q: "0 < q"
    by (simp add: q_def)
  have qe: "2 powi quantum_exponent p emin x = q"
    using le by (simp add: quantum_exponent_def e_def [symmetric] q_def max_def)
  define n where "n = round_half_even (x / q)"
  have y: "y = of_int n * q"
    using r pos by (simp add: round_to_def qe Let_def n_def split: if_splits)
  have "\<bar>of_int n - x / q\<bar> \<le> 1 / 2"
    unfolding n_def by (rule round_half_even_error)
  then have "\<bar>of_int n - x / q\<bar> * q \<le> 1 / 2 * q"
    using q by (intro mult_right_mono) simp_all
  moreover have "\<bar>of_int n - x / q\<bar> * q = \<bar>y - x\<bar>"
  proof -
    have "\<bar>of_int n - x / q\<bar> * q = \<bar>(of_int n - x / q) * q\<bar>"
      using q by (simp add: abs_mult)
    also have "(of_int n - x / q) * q = y - x"
      using q by (simp add: y field_simps)
    finally show ?thesis .
  qed
  moreover have "1 / 2 * q = 2 powi (- int p) * 2 powi e"
  proof -
    have "q = 2 powi (- int p + e + 1)"
      by (simp add: q_def algebra_simps)
    also have "\<dots> = 2 powi (- int p + e) * (2::real)"
      using power_int_add [of "2::real" "- int p + e" 1] by simp
    also have "(2::real) powi (- int p + e) = 2 powi (- int p) * 2 powi e"
      using power_int_add [of "2::real" "- int p" e] by simp
    finally show ?thesis
      by simp
  qed
  moreover have "2 powi (- int p) * 2 powi e \<le> 2 powi (- int p) * x"
    using b(1) by (intro mult_left_mono) simp_all
  ultimately show ?thesis
    by linarith
qed

lemma relative_error_bounds:
  fixes s r c :: real
  assumes "\<bar>s - r\<bar> \<le> c * r"
  shows "s \<le> (1 + c) * r" and "(1 - c) * r \<le> s"
proof -
  have "s - r \<le> c * r" and "r - s \<le> c * r"
    using assms by linarith+
  then show "s \<le> (1 + c) * r" and "(1 - c) * r \<le> s"
    by (simp_all add: algebra_simps)
qed

section \<open>Arithmetic of doubles\<close>

lemmas plus_double_simps [simp] = plus_rounded.simps [of round_double, folded plus_double_def]

lemmas times_double_simps [simp] = times_rounded.simps [of round_double, folded times_double_def]

lemmas divide_double_simps [simp] = divide_rounded.simps [of round_double, folded divide_double_def]

lemmas times_float_simps [simp] = times_rounded.simps [of round_float, folded times_float_def]

lemma minus_Fin [simp]: "Fin a - Fin b = round_double (a - b)"
  by (simp add: minus_double_def)

lemma isfinite_Fin: "isfinite x \<Longrightarrow> \<exists>a. x = Fin a"
  by (cases x) auto

lemma finite_vec_Fin: "finite_vec v \<Longrightarrow> \<exists>a b c. v = Vec3d (Fin a) (Fin b) (Fin c)"
  by (cases v) (auto simp: finite_vec_def dest!: isfinite_Fin)

lemma not_equal_double_self [simp]: "not_equal_double x x = isnan x"
  by (simp add: not_equal_double_def)

section \<open>Magnitudes\<close>

lemma plus_NaN_right [simp]: "x + NaN = NaN"
  by (cases x) simp_all

lemma times_NaN_right [simp]: "x * NaN = NaN"
  by (cases x) simp_all














lemma mat_mul_nan_left [simp]: "mat_mul mat_nan B = mat_nan"
  by (simp add: mat_mul_def mat_vec_def mat_nan_def)

lemma mat_mul_nan_right [simp]: "mat_mul A mat_nan = mat_nan"
  by (simp add: mat_mul_def mat_vec_def mat_nan_def)

section \<open>Skew removal\<close>














section \<open>End of a drag\<close>

text \<open>
  C1, as the code has it. For every event that ends a drag (a session exists and the event
  is not a dragging one), the handler commits the move into the model, enables moving and
  picking again and destroys the session, whatever ended the drag; what it returns is
  whether the event is a left-button release.
\<close>

theorem drag_end_commits_returns_left_up:
  assumes "surface_drag \<noteq> None" and "\<not> Dragging mouse_event"
  shows "on_mouse_surface_drag ext mouse_event camera surface_drag canvas raycast_manager up_limit =
           Inr (LeftUp mouse_event, None,
                canvas\<lparr>moves_done := moves_done canvas @ [''Move over surface''],
                       moving_enabled := True, picking_enabled := True\<rparr>,
                raycast_manager)"
  using assms by (simp add: on_mouse_surface_drag_def)

theorem drag_end_commits_returns_left_up_witness:
  "Some session \<noteq> None \<and> \<not> Dragging (mouse False True) \<and>
   on_mouse_surface_drag (scene_ext None) (mouse False True) (Vec3d (Fin 0) (Fin 0) (Fin 1))
       (Some session) scene 0 None =
     Inr (True, None,
          scene\<lparr>moves_done := [''Move over surface''], moving_enabled := True,
                picking_enabled := True\<rparr>, 0)"
proof -
  have a: "Some session \<noteq> None" by simp
  have b: "\<not> Dragging (mouse False True)" by (simp add: mouse_def)
  have c: "LeftUp (mouse False True)" by (simp add: mouse_def)
  have d: "moves_done scene = []" by (simp add: scene_def)
  show ?thesis
    using a b c d drag_end_commits_returns_left_up [OF a b, of "scene_ext None"
        "Vec3d (Fin 0) (Fin 0) (Fin 1)" scene 0 None]
    by simp
qed

text \<open>
  C1 as stated fails: a drag ended by an event that is not a left-button release (a
  right-button release, say) returns false, and the move is committed all the same.
\<close>

theorem drag_end_other_release_commits:
  "\<not> LeftUp (mouse False False) \<and> moves_done scene = [] \<and>
   on_mouse_surface_drag (scene_ext None) (mouse False False) (Vec3d (Fin 0) (Fin 0) (Fin 1))
       (Some session) scene 0 None =
     Inr (False, None,
          scene\<lparr>moves_done := [''Move over surface''], moving_enabled := True,
                picking_enabled := True\<rparr>, 0)"
  by (simp add: on_mouse_surface_drag_def mouse_def scene_def)

section \<open>A drag step without a hit\<close>

lemma dragging_no_hit:
  assumes "ray_from_camera ext raycast_manager
             (v2add mouse_pos (mouse_offset_without_sla_shift sd)) camera (condition sd) = None"
  shows "dragging ext mouse_pos camera (Some sd) canvas raycast_manager up_limit =
           Inr (True, Some (sd\<lparr>exist_hit := False\<rparr>), canvas\<lparr>dirty := True\<rparr>, raycast_manager)"
  using assms by (simp add: dragging_def Let_def)

text \<open>
  C2. For every dragging event of an active session whose ray finds no intersection, the
  handler reports the event as consumed, keeps the session with its exists-hit flag false,
  marks the canvas dirty, and changes nothing else: every scene volume is as it was.
\<close>

theorem drag_step_without_hit:
  assumes "Dragging mouse_event" and "\<not> Moving mouse_event" and "\<not> LeftDown mouse_event"
    and "ray_from_camera ext raycast_manager
           (v2add (mouse_position mouse_event) (mouse_offset_without_sla_shift sd))
           camera (condition sd) = None"
  shows "on_mouse_surface_drag ext mouse_event camera (Some sd) canvas raycast_manager up_limit =
           Inr (True, Some (sd\<lparr>exist_hit := False\<rparr>), canvas\<lparr>dirty := True\<rparr>, raycast_manager) \<and>
         gl_volumes (canvas\<lparr>dirty := True\<rparr>) = gl_volumes canvas"
  using assms by (simp add: on_mouse_surface_drag_def dragging_no_hit)

theorem drag_step_without_hit_witness:
  "Dragging (mouse True False) \<and> \<not> Moving (mouse True False) \<and> \<not> LeftDown (mouse True False) \<and>
   on_mouse_surface_drag (scene_ext None) (mouse True False) (Vec3d (Fin 0) (Fin 0) (Fin 1))
       (Some session) scene 0 None =
     Inr (True, Some (session\<lparr>exist_hit := False\<rparr>), scene\<lparr>dirty := True\<rparr>, 0)"
proof -
  have a: "Dragging (mouse True False)" and b: "\<not> Moving (mouse True False)"
    and c: "\<not> LeftDown (mouse True False)"
    by (simp_all add: mouse_def)
  have d: "ray_from_camera (scene_ext None) 0
             (v2add (mouse_position (mouse True False)) (mouse_offset_without_sla_shift session))
             (Vec3d (Fin 0) (Fin 0) (Fin 1)) (condition session) = None"
    by (simp add: scene_ext_def)
  show ?thesis
    using a b c drag_step_without_hit [OF a b c d, of scene None] by simp
qed

section \<open>Start of a drag\<close>

text \<open>
  C3. For every press on a selected volume that is the only part of its object, the start
  of a drag returns false and leaves the session, the canvas (its flags and every scene
  transform) and the raycast manager as they were.
\<close>

theorem start_dragging_only_one_part:
  assumes "get_selected_gl_volume canvas = Some g"
    and "get_model_volume (gl_volumes canvas ! g) (objects canvas) = Some volume"
    and "is_the_only_one_part volume"
  shows "start_dragging ext mouse_pos camera surface_drag canvas raycast_manager up_limit =
           Inr (False, surface_drag, canvas, raycast_manager)"
  using assms
  by (auto simp: start_dragging_def get_model_volume_def Let_def split: option.splits)

text \<open>The part of the scene is selected and hovered: the only part of its object.\<close>

theorem start_dragging_only_one_part_witness:
  "get_selected_gl_volume part_selected = Some 0 \<and>
   get_model_volume (gl_volumes part_selected ! 0) (objects part_selected) = Some part_volume \<and>
   is_the_only_one_part part_volume \<and>
   start_dragging (scene_ext None) (Vec2d (Fin 0) (Fin 0)) (Vec3d (Fin 0) (Fin 0) (Fin 1)) None
       part_selected 0 None =
     Inr (False, None, part_selected, 0)"
proof -
  have a: "get_selected_gl_volume part_selected = Some 0"
    by (simp add: get_selected_gl_volume_def part_selected_def scene_def)
  have b: "get_model_volume (gl_volumes part_selected ! 0) (objects part_selected) = Some part_volume"
    by (simp add: get_model_volume_def get_model_object_def get_model_volume_of_def lookup_def
        part_selected_def scene_def scene_volume_def scene_object_def)
  have c: "is_the_only_one_part part_volume"
    by (simp add: part_volume_def)
  show ?thesis
    using a b c start_dragging_only_one_part [OF a b c] by simp
qed

section \<open>A drag step with a hit\<close>

lemma dragging_hit:
  assumes "ray_from_camera ext raycast_manager
             (v2add mouse_pos (mouse_offset_without_sla_shift sd)) camera (condition sd) = Some h"
  shows "dragging ext mouse_pos camera (Some sd) canvas raycast_manager up_limit =
           (let volume_new = solve_volume_new ext (step_session sd) h up_limit
            in if isnan (vx (col0 (linear_part volume_new)))
               then Inr (True, Some (step_session sd), canvas, raycast_manager)
               else if length (gl_volumes canvas) \<le> gl_volume sd then Inl InvalidPointer
               else Inr (True, Some (step_session sd),
                         canvas\<lparr>gl_volumes :=
                                  update_instances (object_idx (gl_volumes canvas ! gl_volume sd))
                                    (volume_idx (gl_volumes canvas ! gl_volume sd))
                                    (step_transform ext sd canvas h up_limit) (gl_volumes canvas),
                                dirty := True\<rparr>,
                         raycast_manager))"
  using assms
  by (simp add: dragging_def Let_def step_session_def step_transform_def deskew_world_def)

lemma length_update_instances [simp]:
  "length (update_instances oi vi t vols) = length vols"
  by (induction vols) auto

lemma nth_update_instances:
  "i < length vols \<Longrightarrow>
   update_instances oi vi t vols ! i =
     (if object_idx (vols ! i) = oi \<and> volume_idx (vols ! i) = vi
      then (vols ! i)\<lparr>volume_transformation := t\<rparr> else vols ! i)"
proof (induction vols arbitrary: i)
  case Nil
  then show ?case by simp
next
  case (Cons vol vols)
  then show ?case by (cases i) auto
qed

lemma solve_scene:
  "solve_volume_new (scene_ext hh) (step_session session) (hit_at p) None =
     \<lparr>linear_part = mat_identity, translation = tr_point tr_identity p\<rparr>"
  by (simp add: solve_volume_new_def step_session_def deskew_world_def session_def scene_ext_def
      hit_at_def tr_identity_def mat_identity_def reset_skew_def cross_def dot_def squaredNorm_def
      vscale_def rot_mul_def mat_mul_def mat_vec_def finite_vec_def Let_def)

lemma step_session_scene: "step_session session = session"
  by (simp add: step_session_def deskew_world_def session_def tr_identity_def mat_identity_def
      reset_skew_def cross_def dot_def squaredNorm_def vscale_def Let_def)





lemma step_session_fields [simp]:
  "instance_inv (step_session sd) = instance_inv sd"
  "linear_part (world (step_session sd)) = reset_skew (linear_part (world sd))"
  by (simp_all add: step_session_def deskew_world_def)



text \<open>
  C9. For every drag step that succeeds (the ray hits, the check passes, the dragged scene
  volume is in the scene), the scene keeps its volumes in place, and the one transform of
  the step is the local transform of every scene volume with the object and volume index of
  the dragged one; every other scene volume is as it was.
\<close>

theorem drag_step_updates_all_instances:
  assumes "ray_from_camera ext raycast_manager
             (v2add mouse_pos (mouse_offset_without_sla_shift sd)) camera (condition sd) = Some h"
    and "\<not> isnan (vx (col0 (linear_part (solve_volume_new ext (step_session sd) h up_limit))))"
    and "gl_volume sd < length (gl_volumes canvas)"
  shows "\<exists>canvas'.
           dragging ext mouse_pos camera (Some sd) canvas raycast_manager up_limit =
             Inr (True, Some (step_session sd), canvas', raycast_manager) \<and>
           length (gl_volumes canvas') = length (gl_volumes canvas) \<and>
           (\<forall>i < length (gl_volumes canvas).
              gl_volumes canvas' ! i =
                (if same_identity (gl_volumes canvas ! i) (gl_volumes canvas ! gl_volume sd)
                 then (gl_volumes canvas ! i)
                        \<lparr>volume_transformation := step_transform ext sd canvas h up_limit\<rparr>
                 else gl_volumes canvas ! i))"
  using assms
  by (simp add: dragging_hit Let_def nth_update_instances same_identity_def)

theorem drag_step_updates_all_instances_witness:
  "step_transform (scene_ext (Some near_hit)) session scene near_hit None =
     \<lparr>linear_part = mat_identity, translation = Vec3d (Fin 1) (Fin 2) (Fin 3)\<rparr> \<and>
   (\<exists>canvas'.
      dragging (scene_ext (Some near_hit)) (Vec2d (Fin 0) (Fin 0)) (Vec3d (Fin 0) (Fin 0) (Fin 1))
          (Some session) scene 0 None =
        Inr (True, Some session, canvas', 0) \<and>
      gl_volumes canvas' = [scene_volume 0 0, moved (Vec3d (Fin 1) (Fin 2) (Fin 3)) (scene_volume 1 0),
                            moved (Vec3d (Fin 1) (Fin 2) (Fin 3)) (scene_volume 1 1)])"
proof -
  let ?ext = "scene_ext (Some near_hit)"
  have ray: "ray_from_camera ?ext 0
     (v2add (Vec2d (Fin 0) (Fin 0)) (mouse_offset_without_sla_shift session))
     (Vec3d (Fin 0) (Fin 0) (Fin 1)) (condition session) = Some near_hit"
    by (simp add: scene_ext_def)
  have solve: "solve_volume_new ?ext (step_session session) near_hit None =
      \<lparr>linear_part = mat_identity, translation = Vec3d (Fin 1) (Fin 2) (Fin 3)\<rparr>"
    by (simp add: near_hit_def solve_scene)
       (simp add: tr_point_def tr_identity_def mat_identity_def mat_vec_def vadd_def)
  have check: "\<not> isnan (vx (col0 (linear_part (solve_volume_new ?ext (step_session session) near_hit None))))"
    by (simp add: solve mat_identity_def)
  have valid: "gl_volume session < length (gl_volumes scene)"
    by (simp add: session_def scene_def)
  have transform: "step_transform ?ext session scene near_hit None =
      \<lparr>linear_part = mat_identity, translation = Vec3d (Fin 1) (Fin 2) (Fin 3)\<rparr>"
    by (simp add: step_transform_def solve)
       (simp add: fix_volume_new_def scene_ext_def session_def scene_def scene_volume_def
          scene_object_def text_volume_def get_model_volume_def get_model_object_def
          get_model_volume_of_def lookup_def)
  obtain canvas' where run: "dragging ?ext (Vec2d (Fin 0) (Fin 0)) (Vec3d (Fin 0) (Fin 0) (Fin 1))
          (Some session) scene 0 None = Inr (True, Some (step_session session), canvas', 0)"
    and len: "length (gl_volumes canvas') = length (gl_volumes scene)"
    and each: "\<forall>i < length (gl_volumes scene).
              gl_volumes canvas' ! i =
                (if same_identity (gl_volumes scene ! i) (gl_volumes scene ! gl_volume session)
                 then (gl_volumes scene ! i)
                        \<lparr>volume_transformation := step_transform ?ext session scene near_hit None\<rparr>
                 else gl_volumes scene ! i)"
    using drag_step_updates_all_instances [OF ray check valid] by blast
  have l3: "length (gl_volumes canvas') = 3"
    using len by (simp add: scene_def)
  have v0: "gl_volumes canvas' ! 0 = scene_volume 0 0"
    using each [rule_format, of 0]
    by (simp add: scene_def session_def same_identity_def scene_volume_def)
  have v1: "gl_volumes canvas' ! 1 = moved (Vec3d (Fin 1) (Fin 2) (Fin 3)) (scene_volume 1 0)"
    using each [unfolded transform, rule_format, of 1]
    by (simp add: scene_def session_def same_identity_def scene_volume_def moved_def)
  have v2: "gl_volumes canvas' ! 2 = moved (Vec3d (Fin 1) (Fin 2) (Fin 3)) (scene_volume 1 1)"
    using each [unfolded transform, rule_format, of 2]
    by (simp add: scene_def session_def same_identity_def scene_volume_def moved_def)
  have vols: "gl_volumes canvas' = [scene_volume 0 0, moved (Vec3d (Fin 1) (Fin 2) (Fin 3)) (scene_volume 1 0),
                            moved (Vec3d (Fin 1) (Fin 2) (Fin 3)) (scene_volume 1 1)]"
    using l3 v0 v1 v2 by (auto simp: list_eq_iff_nth_eq less_Suc_eq numeral_3_eq_3 numeral_2_eq_2)
  show ?thesis
    using transform run vols by (auto simp: step_session_scene)
qed

section \<open>The embossed shape at the start of a drag\<close>

lemma get_selected_gl_volume_valid:
  "get_selected_gl_volume canvas = Some g \<Longrightarrow> g < length (gl_volumes canvas)"
  by (auto simp: get_selected_gl_volume_def split: list.splits if_splits)

text \<open>
  C10. For every press that passes the checks of the start of a drag (a selected scene
  volume, hovered, whose object, instance and volume are found, and which is not the only
  part), the start reads the use-surface flag of the volume's optional embossed shape with
  no check of the optional: the read is of an empty optional exactly when the volume
  carries no embossed shape.
\<close>

theorem start_dragging_reads_emboss_shape:
  assumes "get_selected_gl_volume canvas = Some g"
    and "first_hover_volume_idx canvas = int g"
    and "get_model_object (gl_volumes canvas ! g) (objects canvas) = Some object"
    and "get_model_instance (gl_volumes canvas ! g) object = Some instance"
    and "get_model_volume_of (gl_volumes canvas ! g) object = Some volume"
    and "\<not> is_the_only_one_part volume"
  shows "(start_dragging ext mouse_pos camera surface_drag canvas raycast_manager up_limit =
            Inl EmptyOptional) = (emboss_shape volume = None)"
proof -
  have "g < length (gl_volumes canvas)"
    using assms(1) by (rule get_selected_gl_volume_valid)
  then show ?thesis
    using assms by (simp add: start_dragging_def Let_def split: option.splits)
qed

theorem start_dragging_reads_emboss_shape_witness:
  "get_selected_gl_volume plain_scene = Some 0 \<and>
   first_hover_volume_idx plain_scene = int 0 \<and>
   get_model_object (gl_volumes plain_scene ! 0) (objects plain_scene) = Some plain_object \<and>
   get_model_instance (gl_volumes plain_scene ! 0) plain_object = Some \<lparr>instance_matrix = tr_identity\<rparr> \<and>
   get_model_volume_of (gl_volumes plain_scene ! 0) plain_object = Some plain_volume \<and>
   \<not> is_the_only_one_part plain_volume \<and> emboss_shape plain_volume = None \<and>
   start_dragging (scene_ext None) (Vec2d (Fin 0) (Fin 0)) behind None plain_scene 0 None =
     Inl EmptyOptional"
proof -
  have a: "get_selected_gl_volume plain_scene = Some 0"
    by (simp add: get_selected_gl_volume_def plain_scene_def)
  have b: "first_hover_volume_idx plain_scene = int 0"
    by (simp add: plain_scene_def)
  have c: "get_model_object (gl_volumes plain_scene ! 0) (objects plain_scene) = Some plain_object"
    by (simp add: get_model_object_def lookup_def plain_scene_def scene_volume_def)
  have d: "get_model_instance (gl_volumes plain_scene ! 0) plain_object =
      Some \<lparr>instance_matrix = tr_identity\<rparr>"
    by (simp add: get_model_instance_def lookup_def plain_scene_def scene_volume_def plain_object_def)
  have e: "get_model_volume_of (gl_volumes plain_scene ! 0) plain_object = Some plain_volume"
    by (simp add: get_model_volume_of_def lookup_def plain_scene_def scene_volume_def plain_object_def)
  have f: "\<not> is_the_only_one_part plain_volume" and g: "emboss_shape plain_volume = None"
    by (simp_all add: plain_volume_def)
  show ?thesis
    using a b c d e f g
      start_dragging_reads_emboss_shape [OF a b c d e f, of "scene_ext None" "Vec2d (Fin 0) (Fin 0)"
        behind None 0 None]
    by simp
qed

section \<open>The surface distance query\<close>

text \<open>
  The roundings of the query for three hits: one a hundredth ahead of the text, one at
  \<open>(0, 1, - 3)\<close>, and one at the distance \<open>1 + 2 powi - 30\<close> ahead.
\<close>

lemma close_round_1:
  assumes "x = - (5764607523034235 / 576460752303423488)"
  shows "round_double x = Fin (- (5764607523034235 / 576460752303423488))"
  unfolding assms round_double_def
  by (subst round_to_eval [where k = "-7" and m = "-5764607523034235"])
     (simp_all add: round_half_even_def Let_def)

lemma close_round_2:
  assumes "x = 33230699894622898206100982035225 / 332306998946228968225951765070086144"
  shows "round_double x = Fin (7378697629483821 / 73786976294838206464)"
  unfolding assms round_double_def
  by (subst round_to_eval [where k = "-14" and m = "7378697629483821"])
     (simp_all add: round_half_even_def Let_def)

lemma close_round_3:
  assumes "x = 7378697629483821 / 73786976294838206464"
  shows "round_double x = Fin (7378697629483821 / 73786976294838206464)"
  unfolding assms round_double_def
  by (subst round_to_eval [where k = "-14" and m = "7378697629483821"])
     (simp_all add: round_half_even_def Let_def)

lemma close_round_4:
  assumes "x = 1 / 10000"
  shows "round_double x = Fin (7378697629483821 / 73786976294838206464)"
  unfolding assms round_double_def
  by (subst round_to_eval [where k = "-14" and m = "7378697629483821"])
     (simp_all add: round_half_even_def Let_def)

lemma close_round_5:
  assumes "x = 7378697629483821 / 73786976294838206464"
  shows "round_double (sqrt x) = Fin (5764607523034235 / 576460752303423488)"
  unfolding round_double_def
proof (subst round_to_eval [where k = "-7" and m = "5764607523034235"])
  have lo: "(11529215046068469 / 1152921504606846976)\<^sup>2 < x" and hi: "x < (11529215046068471 / 1152921504606846976)\<^sup>2"
    by (simp_all add: assms power2_eq_square)
  have pos: "0 \<le> x"
    by (simp add: assms)
  have low: "11529215046068469 / 1152921504606846976 < sqrt x"
    using lo pos by (intro real_less_rsqrt) simp
  have high: "sqrt x < 11529215046068471 / 1152921504606846976"
    using hi pos by (intro real_less_lsqrt) simp_all
  show "2 powi (-7) \<le> \<bar>sqrt x\<bar>" and "\<bar>sqrt x\<bar> < 2 powi (-7 + 1)"
    using low high by simp_all
  show "round_half_even (sqrt x / 2 powi (max (-7) (- 1022) - (int 53 - 1))) = 5764607523034235"
    using low high by (intro round_half_even_eqI) (simp_all add: field_simps)
qed simp_all

lemma close_round_6:
  assumes "x = 5764607523034235 / 576460752303423488"
  shows "round_float x = Fin (5368709 / 536870912)"
  unfolding assms round_float_def
  by (subst round_to_eval [where k = "-7" and m = "10737418"])
     (simp_all add: round_half_even_def Let_def)

lemma close_round_7:
  assumes "x = 5764607523034235 / 576460752303423488"
  shows "round_double x = Fin (5764607523034235 / 576460752303423488)"
  unfolding assms round_double_def
  by (subst round_to_eval [where k = "-7" and m = "5764607523034235"])
     (simp_all add: round_half_even_def Let_def)

lemma close_round_8:
  assumes "x = 5368709 / 536870912"
  shows "round_float x = Fin (5368709 / 536870912)"
  unfolding assms round_float_def
  by (subst round_to_eval [where k = "-7" and m = "10737418"])
     (simp_all add: round_half_even_def Let_def)

lemma far_round_1:
  assumes "x = 1 / 10000"
  shows "round_double x = Fin (7378697629483821 / 73786976294838206464)"
  unfolding assms round_double_def
  by (subst round_to_eval [where k = "-14" and m = "7378697629483821"])
     (simp_all add: round_half_even_def Let_def)

lemma far_round_2:
  assumes "x = 10"
  shows "round_double (sqrt x) = Fin (7120816245988179 / 2251799813685248)"
  unfolding round_double_def
proof (subst round_to_eval [where k = "1" and m = "7120816245988179"])
  have lo: "(14241632491976357 / 4503599627370496)\<^sup>2 < x" and hi: "x < (14241632491976359 / 4503599627370496)\<^sup>2"
    by (simp_all add: assms power2_eq_square)
  have pos: "0 \<le> x"
    by (simp add: assms)
  have low: "14241632491976357 / 4503599627370496 < sqrt x"
    using lo pos by (intro real_less_rsqrt) simp
  have high: "sqrt x < 14241632491976359 / 4503599627370496"
    using hi pos by (intro real_less_lsqrt) simp_all
  show "2 powi (1) \<le> \<bar>sqrt x\<bar>" and "\<bar>sqrt x\<bar> < 2 powi (1 + 1)"
    using low high by simp_all
  show "round_half_even (sqrt x / 2 powi (max (1) (- 1022) - (int 53 - 1))) = 7120816245988179"
    using low high by (intro round_half_even_eqI) (simp_all add: field_simps)
qed simp_all

lemma far_round_3:
  assumes "x = 7120816245988179 / 2251799813685248"
  shows "round_float x = Fin (6631777 / 2097152)"
  unfolding assms round_float_def
  by (subst round_to_eval [where k = "1" and m = "13263554"])
     (simp_all add: round_half_even_def Let_def)

lemma far_round_4:
  assumes "x = 6631777 / 2097152"
  shows "round_float x = Fin (6631777 / 2097152)"
  unfolding assms round_float_def
  by (subst round_to_eval [where k = "1" and m = "13263554"])
     (simp_all add: round_half_even_def Let_def)

lemma fine_round_1:
  assumes "x = - (1073741825 / 1073741824)"
  shows "round_double x = Fin (- (1073741825 / 1073741824))"
  unfolding assms round_double_def
  by (subst round_to_eval [where k = "0" and m = "-4503599631564800"])
     (simp_all add: round_half_even_def Let_def)

lemma fine_round_2:
  assumes "x = 1152921506754330625 / 1152921504606846976"
  shows "round_double x = Fin (536870913 / 536870912)"
  unfolding assms round_double_def
  by (subst round_to_eval [where k = "0" and m = "4503599635759104"])
     (simp_all add: round_half_even_def Let_def)

lemma fine_round_3:
  assumes "x = 536870913 / 536870912"
  shows "round_double x = Fin (536870913 / 536870912)"
  unfolding assms round_double_def
  by (subst round_to_eval [where k = "0" and m = "4503599635759104"])
     (simp_all add: round_half_even_def Let_def)

lemma fine_round_4:
  assumes "x = 1 / 10000"
  shows "round_double x = Fin (7378697629483821 / 73786976294838206464)"
  unfolding assms round_double_def
  by (subst round_to_eval [where k = "-14" and m = "7378697629483821"])
     (simp_all add: round_half_even_def Let_def)

lemma fine_round_5:
  assumes "x = 536870913 / 536870912"
  shows "round_double (sqrt x) = Fin (1073741825 / 1073741824)"
  unfolding round_double_def
proof (subst round_to_eval [where k = "0" and m = "4503599631564800"])
  have lo: "(9007199263129599 / 9007199254740992)\<^sup>2 < x" and hi: "x < (9007199263129601 / 9007199254740992)\<^sup>2"
    by (simp_all add: assms power2_eq_square)
  have pos: "0 \<le> x"
    by (simp add: assms)
  have low: "9007199263129599 / 9007199254740992 < sqrt x"
    using lo pos by (intro real_less_rsqrt) simp
  have high: "sqrt x < 9007199263129601 / 9007199254740992"
    using hi pos by (intro real_less_lsqrt) simp_all
  show "2 powi (0) \<le> \<bar>sqrt x\<bar>" and "\<bar>sqrt x\<bar> < 2 powi (0 + 1)"
    using low high by simp_all
  show "round_half_even (sqrt x / 2 powi (max (0) (- 1022) - (int 53 - 1))) = 4503599631564800"
    using low high by (intro round_half_even_eqI) (simp_all add: field_simps)
qed simp_all

lemma fine_round_6:
  assumes "x = 1073741825 / 1073741824"
  shows "round_float x = Fin (1)"
  unfolding assms round_float_def
  by (subst round_to_eval [where k = "0" and m = "8388608"])
     (simp_all add: round_half_even_def Let_def)

lemma fine_round_7:
  assumes "x = 1073741825 / 1073741824"
  shows "round_double x = Fin (1073741825 / 1073741824)"
  unfolding assms round_double_def
  by (subst round_to_eval [where k = "0" and m = "4503599631564800"])
     (simp_all add: round_half_even_def Let_def)

lemma fine_round_8:
  assumes "x = 1"
  shows "round_float x = Fin (1)"
  unfolding assms round_float_def
  by (subst round_to_eval [where k = "0" and m = "8388608"])
     (simp_all add: round_half_even_def Let_def)

lemma surface_distance_sq_min_value:
  "surface_distance_sq_min = Fin (7378697629483821 / 73786976294838206464)"
  unfolding surface_distance_sq_min_def by (rule close_round_4) simp

lemma calc_distance_hit:
  assumes "closest_hit ext raycaster (translation (world_matrix ext gl_vol))
             (forward_dir ext gl_vol) cond = Some hit"
  shows "calc_distance ext gl_vol raycaster cond =
           (if squaredNorm (p_to_hit ext gl_vol raycaster hit) < surface_distance_sq_min \<or>
               max_squared_distance gl_vol < squaredNorm (p_to_hit ext gl_vol raycaster hit)
            then None
            else Some (times_float
                   (if Fin 0 < dot (p_to_hit ext gl_vol raycaster hit) (forward_dir ext gl_vol)
                    then Fin 1 else Fin (- 1))
                   (to_float (std_sqrt (squaredNorm (p_to_hit ext gl_vol raycaster hit))))))"
  using assms
  by (simp add: calc_distance_def Let_def p_to_hit_def forward_dir_def max_squared_distance_def
      surface_distance_sq_max_def)

text \<open>
  The root of a squared distance that passes the lower bound, cast to float: it is positive
  and a float, or infinite, and its square is near the squared distance.
\<close>

lemma root_float_cases:
  assumes "\<not> Fin a < surface_distance_sq_min"
  shows "to_float (std_sqrt (Fin a)) = PInf \<or>
         (\<exists>w. to_float (std_sqrt (Fin a)) = Fin w \<and> 0 < w \<and>
              round_float w = Fin w \<and> round_float (- w) = Fin (- w))"
proof -
  have a: "2 powi (- 14) \<le> a"
    using assms by (simp add: surface_distance_sq_min_value)
  then have pos: "\<not> a < 0"
    by (smt (verit) zero_less_power_int)
  have e: "sqrt (2 powi (- 14)) = (2 powi (- 7) :: real)"
    by (intro real_sqrt_unique) (simp_all add: power2_eq_square)
  have root: "2 powi (- 7) \<le> sqrt a"
    using real_sqrt_le_mono [OF a] unfolding e .
  have "round_double (sqrt a) = PInf \<or> (\<exists>y. round_double (sqrt a) = Fin y \<and> 2 powi (- 7) \<le> y)"
    unfolding round_double_def using root by (intro round_to_lower) simp_all
  then show ?thesis
  proof
    assume "round_double (sqrt a) = PInf"
    then show ?thesis using pos by simp
  next
    assume "\<exists>y. round_double (sqrt a) = Fin y \<and> 2 powi (- 7) \<le> y"
    then obtain y where y: "round_double (sqrt a) = Fin y" and y7: "2 powi (- 7) \<le> y"
      by blast
    have "round_float y = PInf \<or> (\<exists>w. round_float y = Fin w \<and> 2 powi (- 7) \<le> w)"
      unfolding round_float_def using y7 by (intro round_to_lower) simp_all
    then show ?thesis
    proof
      assume "round_float y = PInf"
      then show ?thesis using pos y by simp
    next
      assume "\<exists>w. round_float y = Fin w \<and> 2 powi (- 7) \<le> w"
      then obtain w where w: "round_float y = Fin w" and w7: "2 powi (- 7) \<le> w"
        by blast
      have "0 < w"
        using w7 by (smt (verit) zero_less_power_int)
      moreover have "round_float w = Fin w" and "round_float (- w) = Fin (- w)"
        using round_to_idem [of 24 "- 126" 127 y w] w by (simp_all add: round_float_def)
      ultimately show ?thesis
        using pos y w by simp
    qed
  qed
qed

lemma root_float_error:
  assumes a: "2 powi (- 14) \<le> a" and w: "to_float (std_sqrt (Fin a)) = Fin w"
  shows "a * (1 - 2 powi (- 22)) \<le> w\<^sup>2 \<and> w\<^sup>2 \<le> a * (1 + 2 powi (- 22))"
proof -
  have pos: "0 < a"
    using a by (smt (verit) zero_less_power_int)
  have e: "sqrt (2 powi (- 14)) = (2 powi (- 7) :: real)"
    by (intro real_sqrt_unique) (simp_all add: power2_eq_square)
  have root: "2 powi (- 7) \<le> sqrt a"
    using real_sqrt_le_mono [OF a] unfolding e .
  obtain s where s: "round_double (sqrt a) = Fin s"
    using w pos by (cases "round_double (sqrt a)") simp_all
  have wf: "round_float s = Fin w"
    using w s pos by simp
  have s7: "2 powi (- 7) \<le> s"
    using round_to_lower [of "- 7" "sqrt a" "- 1022" 53 1023] root s by (simp add: round_double_def)
  have "(2::real) powi (- 1022) \<le> 2 powi (- 7)" and "(2::real) powi (- 126) \<le> 2 powi (- 7)"
    by (simp_all add: two_powi_le_iff)
  then have d: "2 powi (- 1022) \<le> sqrt a" and f: "2 powi (- 126) \<le> s"
    using root s7 by linarith+
  define r where "r = sqrt a"
  have r: "0 < r" "r\<^sup>2 = a"
    using pos by (simp_all add: r_def)
  have es: "\<bar>s - r\<bar> \<le> 2 powi (- 53) * r"
    using round_to_error [OF d s [unfolded round_double_def]] by (simp add: r_def)
  have ew: "\<bar>w - s\<bar> \<le> 2 powi (- 24) * s"
    using round_to_error [OF f wf [unfolded round_float_def]] by simp
  define hi :: real where "hi = (1 + 2 powi (- 24)) * (1 + 2 powi (- 53))"
  define lo :: real where "lo = (1 - 2 powi (- 24)) * (1 - 2 powi (- 53))"
  have lo0: "0 \<le> lo" and lo2: "1 - 2 powi (- 22) \<le> lo\<^sup>2" and hi2: "hi\<^sup>2 \<le> 1 + 2 powi (- 22)"
    by (simp_all add: lo_def hi_def power2_eq_square)
  have s_hi: "s \<le> (1 + 2 powi (- 53)) * r" and s_lo: "(1 - 2 powi (- 53)) * r \<le> s"
    using relative_error_bounds [OF es] by blast+
  have w_hi': "w \<le> (1 + 2 powi (- 24)) * s" and w_lo': "(1 - 2 powi (- 24)) * s \<le> w"
    using relative_error_bounds [OF ew] by blast+
  have "(1 + 2 powi (- 24)) * s \<le> (1 + 2 powi (- 24)) * ((1 + 2 powi (- 53)) * r)"
    using s_hi by (intro mult_left_mono) simp_all
  then have w_hi: "w \<le> hi * r"
    using w_hi' by (simp add: hi_def mult.assoc)
  have "(1 - 2 powi (- 24)) * ((1 - 2 powi (- 53)) * r) \<le> (1 - 2 powi (- 24)) * s"
    using s_lo by (intro mult_left_mono) simp_all
  then have w_lo: "lo * r \<le> w"
    using w_lo' by (simp add: lo_def mult.assoc)
  have "0 \<le> lo * r"
    using lo0 r(1) by simp
  then have w0: "0 \<le> w"
    using w_lo by linarith
  have "(lo * r)\<^sup>2 \<le> w\<^sup>2"
    using w_lo \<open>0 \<le> lo * r\<close> by (intro power_mono) simp_all
  then have "lo\<^sup>2 * a \<le> w\<^sup>2"
    by (simp add: power_mult_distrib r(2))
  moreover have "(1 - 2 powi (- 22)) * a \<le> lo\<^sup>2 * a"
    using lo2 pos by (intro mult_right_mono) simp_all
  moreover have "w\<^sup>2 \<le> (hi * r)\<^sup>2"
    using w_hi w0 by (intro power_mono) simp_all
  then have "w\<^sup>2 \<le> hi\<^sup>2 * a"
    by (simp add: power_mult_distrib r(2))
  moreover have "hi\<^sup>2 * a \<le> (1 + 2 powi (- 22)) * a"
    using hi2 pos by (intro mult_right_mono) simp_all
  ultimately show ?thesis
    by (simp add: mult.commute)
qed

text \<open>
  C6, as the code has it. For every volume whose ray hits, with the squared distance \<open>d\<close>
  from the anchor to the hit in world coordinates, the query returns no value exactly when
  \<open>d\<close> is below \<open>1e-4\<close> or above \<open>max(4 * depth\<^sup>2, 10)\<close>. Otherwise \<open>d\<close> lies between the two
  bounds and the query returns the square root of \<open>d\<close>, cast to float, with its sign. The
  square of a finite value returned differs from \<open>d\<close> by at most \<open>d * 2 powi - 22\<close>: it lies
  within the range up to the rounding of the root and of the cast, and not always within it.
\<close>

theorem calc_distance_none_iff_else_float_root:
  assumes "closest_hit ext raycaster (translation (world_matrix ext gl_vol))
             (forward_dir ext gl_vol) cond = Some hit"
  shows "((calc_distance ext gl_vol raycaster cond = None) =
            (squaredNorm (p_to_hit ext gl_vol raycaster hit) < surface_distance_sq_min \<or>
             max_squared_distance gl_vol < squaredNorm (p_to_hit ext gl_vol raycaster hit))) \<and>
         (\<forall>x. calc_distance ext gl_vol raycaster cond = Some x \<longrightarrow>
            \<not> squaredNorm (p_to_hit ext gl_vol raycaster hit) < surface_distance_sq_min \<and>
            \<not> max_squared_distance gl_vol < squaredNorm (p_to_hit ext gl_vol raycaster hit) \<and>
            x = times_float
                  (if Fin 0 < dot (p_to_hit ext gl_vol raycaster hit) (forward_dir ext gl_vol)
                   then Fin 1 else Fin (- 1))
                  (to_float (std_sqrt (squaredNorm (p_to_hit ext gl_vol raycaster hit))))) \<and>
         (\<forall>a w. squaredNorm (p_to_hit ext gl_vol raycaster hit) = Fin a \<and>
                 calc_distance ext gl_vol raycaster cond = Some (Fin w) \<longrightarrow>
            a * (1 - 2 powi (- 22)) \<le> w\<^sup>2 \<and> w\<^sup>2 \<le> a * (1 + 2 powi (- 22)))"
proof -
  let ?d = "squaredNorm (p_to_hit ext gl_vol raycaster hit)"
  let ?sign = "if Fin 0 < dot (p_to_hit ext gl_vol raycaster hit) (forward_dir ext gl_vol)
               then Fin 1 else Fin (- 1)"
  have square: "a * (1 - 2 powi (- 22)) \<le> w\<^sup>2 \<and> w\<^sup>2 \<le> a * (1 + 2 powi (- 22))"
    if d: "?d = Fin a" and x: "calc_distance ext gl_vol raycaster cond = Some (Fin w)" for a w
  proof -
    have low: "\<not> Fin a < surface_distance_sq_min"
      and val: "Fin w = times_float ?sign (to_float (std_sqrt (Fin a)))"
      using x unfolding calc_distance_hit [OF assms] d by (simp_all split: if_splits)
    have a: "2 powi (- 14) \<le> a"
      using low by (simp add: surface_distance_sq_min_value)
    from root_float_cases [OF low] obtain v where v: "to_float (std_sqrt (Fin a)) = Fin v"
      and "0 < v" and "round_float v = Fin v" and "round_float (- v) = Fin (- v)"
      using val by (auto split: if_splits)
    then have "w = v \<or> w = - v"
      using val by (simp split: if_splits)
    then have "w\<^sup>2 = v\<^sup>2"
      by auto
    then show ?thesis
      using root_float_error [OF a v] by simp
  qed
  show ?thesis
    using square unfolding calc_distance_hit [OF assms] by auto
qed

lemma scene_closest_hit:
  "closest_hit (scene_ext (Some h)) 0 (translation (world_matrix (scene_ext (Some h)) v))
     (forward_dir (scene_ext (Some h)) v) () = Some h"
  by (simp add: scene_ext_def)

lemma scene_forward_dir: "forward_dir (scene_ext hh) (scene_volume 1 0) = ahead"
  by (simp add: forward_dir_def scene_ext_def scene_volume_def tr_identity_def mat_identity_def
      normalized_def squaredNorm_def vdiv_def vneg_def ahead_def Let_def)

lemma scene_max_squared_distance: "max_squared_distance (scene_volume 1 0) = Fin 10"
  by (simp add: max_squared_distance_def scene_volume_def std_max_def)

theorem calc_distance_none_iff_else_float_root_witness:
  "closest_hit (scene_ext (Some (hit_at ahead))) 0
     (translation (world_matrix (scene_ext (Some (hit_at ahead))) (scene_volume 1 0)))
     (forward_dir (scene_ext (Some (hit_at ahead))) (scene_volume 1 0)) () = Some (hit_at ahead) \<and>
   squaredNorm (p_to_hit (scene_ext (Some (hit_at ahead))) (scene_volume 1 0) 0 (hit_at ahead)) = Fin 1 \<and>
   max_squared_distance (scene_volume 1 0) = Fin 10 \<and>
   calc_distance (scene_ext (Some (hit_at ahead))) (scene_volume 1 0) 0 () = Some (Fin 1) \<and>
   (1::real) * (1 - 2 powi (- 22)) \<le> 1\<^sup>2 \<and> (1::real)\<^sup>2 \<le> 1 * (1 + 2 powi (- 22))"
proof -
  let ?ext = "scene_ext (Some (hit_at ahead))"
  have hit: "closest_hit ?ext 0 (translation (world_matrix ?ext (scene_volume 1 0)))
     (forward_dir ?ext (scene_volume 1 0)) () = Some (hit_at ahead)"
    by (rule scene_closest_hit)
  have off: "p_to_hit ?ext (scene_volume 1 0) 0 (hit_at ahead) = Vec3d (Fin 0) (Fin 0) (Fin (- 1))"
    by (simp add: p_to_hit_def scene_ext_def scene_volume_def hit_at_def ahead_def tr_identity_def
        mat_identity_def tr_point_def mat_vec_def vadd_def vsub_def)
  have d: "squaredNorm (p_to_hit ?ext (scene_volume 1 0) 0 (hit_at ahead)) = Fin 1"
    by (simp add: off squaredNorm_def)
  have dt: "dot (p_to_hit ?ext (scene_volume 1 0) 0 (hit_at ahead))
              (forward_dir ?ext (scene_volume 1 0)) = Fin 1"
    unfolding off scene_forward_dir by (simp add: ahead_def dot_def)
  have val: "calc_distance ?ext (scene_volume 1 0) 0 () = Some (Fin 1)"
    unfolding calc_distance_hit [OF hit] d dt scene_max_squared_distance
    by (simp add: surface_distance_sq_min_value)
  show ?thesis
    using hit d val scene_max_squared_distance
      calc_distance_none_iff_else_float_root [OF hit] by simp
qed

text \<open>
  C6 as stated fails at both bounds. With the hit at \<open>(0, 1, - 3)\<close> the squared distance is
  ten, the bound, and the query returns the float \<open>3.1622776985168457\<close>, whose square is
  above ten. With the hit a hundredth ahead the squared distance is the double nearest to
  \<open>1e-4\<close>, and the query returns the float \<open>0.009999999776482582\<close>, whose square is below
  \<open>1e-4\<close>.
\<close>

theorem calc_distance_square_leaves_range:
  "calc_distance (scene_ext (Some root_ten_hit)) (scene_volume 1 0) 0 () =
     Some (Fin (6631777 / 2097152)) \<and>
   max_squared_distance (scene_volume 1 0) = Fin 10 \<and>
   (10::real) < (6631777 / 2097152)\<^sup>2 \<and>
   calc_distance (scene_ext (Some hundredth_hit)) (scene_volume 1 0) 0 () =
     Some (Fin (5368709 / 536870912)) \<and>
   (5368709 / 536870912)\<^sup>2 < (1 / 10000 :: real)"
proof -
  have hit_far: "closest_hit (scene_ext (Some root_ten_hit)) 0
     (translation (world_matrix (scene_ext (Some root_ten_hit)) (scene_volume 1 0)))
     (forward_dir (scene_ext (Some root_ten_hit)) (scene_volume 1 0)) () = Some root_ten_hit"
    by (rule scene_closest_hit)
  have off_far: "p_to_hit (scene_ext (Some root_ten_hit)) (scene_volume 1 0) 0 root_ten_hit = Vec3d (Fin 0) (Fin 1) (Fin (- 3))"
    by (simp add: p_to_hit_def scene_ext_def scene_volume_def root_ten_hit_def hit_at_def tr_identity_def
        mat_identity_def tr_point_def mat_vec_def vadd_def vsub_def far_round_1 far_round_2 far_round_3 far_round_4)
  have d_far: "squaredNorm (p_to_hit (scene_ext (Some root_ten_hit)) (scene_volume 1 0) 0 root_ten_hit) = Fin (10)"
    unfolding off_far by (simp add: squaredNorm_def far_round_1 far_round_2 far_round_3 far_round_4)
  have dt_far: "dot (p_to_hit (scene_ext (Some root_ten_hit)) (scene_volume 1 0) 0 root_ten_hit)
              (forward_dir (scene_ext (Some root_ten_hit)) (scene_volume 1 0)) = Fin (3)"
    unfolding off_far scene_forward_dir by (simp add: ahead_def dot_def far_round_1 far_round_2 far_round_3 far_round_4)
  have root_far: "to_float (std_sqrt (Fin (10))) = Fin (6631777 / 2097152)"
    by (simp add: far_round_1 far_round_2 far_round_3 far_round_4)
  have val_far: "calc_distance (scene_ext (Some root_ten_hit)) (scene_volume 1 0) 0 () = Some (Fin (6631777 / 2097152))"
    unfolding calc_distance_hit [OF hit_far] d_far dt_far scene_max_squared_distance root_far
    by (simp add: surface_distance_sq_min_value far_round_1 far_round_2 far_round_3 far_round_4)
  have hit_close: "closest_hit (scene_ext (Some hundredth_hit)) 0
     (translation (world_matrix (scene_ext (Some hundredth_hit)) (scene_volume 1 0)))
     (forward_dir (scene_ext (Some hundredth_hit)) (scene_volume 1 0)) () = Some hundredth_hit"
    by (rule scene_closest_hit)
  have off_close: "p_to_hit (scene_ext (Some hundredth_hit)) (scene_volume 1 0) 0 hundredth_hit = Vec3d (Fin 0) (Fin 0) (Fin (- (5764607523034235 / 576460752303423488)))"
    by (simp add: p_to_hit_def scene_ext_def scene_volume_def hundredth_hit_def hit_at_def tr_identity_def
        mat_identity_def tr_point_def mat_vec_def vadd_def vsub_def close_round_1 close_round_2 close_round_3 close_round_4 close_round_5 close_round_6 close_round_7 close_round_8)
  have d_close: "squaredNorm (p_to_hit (scene_ext (Some hundredth_hit)) (scene_volume 1 0) 0 hundredth_hit) = Fin (7378697629483821 / 73786976294838206464)"
    unfolding off_close by (simp add: squaredNorm_def close_round_1 close_round_2 close_round_3 close_round_4 close_round_5 close_round_6 close_round_7 close_round_8)
  have dt_close: "dot (p_to_hit (scene_ext (Some hundredth_hit)) (scene_volume 1 0) 0 hundredth_hit)
              (forward_dir (scene_ext (Some hundredth_hit)) (scene_volume 1 0)) = Fin (5764607523034235 / 576460752303423488)"
    unfolding off_close scene_forward_dir by (simp add: ahead_def dot_def close_round_1 close_round_2 close_round_3 close_round_4 close_round_5 close_round_6 close_round_7 close_round_8)
  have root_close: "to_float (std_sqrt (Fin (7378697629483821 / 73786976294838206464))) = Fin (5368709 / 536870912)"
    by (simp add: close_round_1 close_round_2 close_round_3 close_round_4 close_round_5 close_round_6 close_round_7 close_round_8)
  have val_close: "calc_distance (scene_ext (Some hundredth_hit)) (scene_volume 1 0) 0 () = Some (Fin (5368709 / 536870912))"
    unfolding calc_distance_hit [OF hit_close] d_close dt_close scene_max_squared_distance root_close
    by (simp add: surface_distance_sq_min_value close_round_1 close_round_2 close_round_3 close_round_4 close_round_5 close_round_6 close_round_7 close_round_8)
  have above: "(10::real) < (6631777 / 2097152)\<^sup>2"
    by (simp add: power2_eq_square)
  have below: "(5368709 / 536870912)\<^sup>2 < (1 / 10000 :: real)"
    by (simp add: power2_eq_square)
  show ?thesis
    using val_far val_close scene_max_squared_distance above below by blast
qed

text \<open>
  C7, as the code has it. For every distance the query returns (the squared distance being
  finite), its magnitude is the norm of the offset from the anchor to the hit, as the double
  square root of the squared norm, cast to float; it is positive exactly when the dot
  product of that offset with the forward direction is greater than zero, and negative
  otherwise.
\<close>

theorem calc_distance_sign_float_magnitude:
  assumes "closest_hit ext raycaster (translation (world_matrix ext gl_vol))
             (forward_dir ext gl_vol) cond = Some hit"
    and "isfinite (squaredNorm (p_to_hit ext gl_vol raycaster hit))"
    and "calc_distance ext gl_vol raycaster cond = Some x"
  shows "\<bar>x\<bar> = to_float (std_sqrt (squaredNorm (p_to_hit ext gl_vol raycaster hit))) \<and>
         (Fin 0 < x) = (Fin 0 < dot (p_to_hit ext gl_vol raycaster hit) (forward_dir ext gl_vol)) \<and>
         (x < Fin 0) = (\<not> Fin 0 < dot (p_to_hit ext gl_vol raycaster hit) (forward_dir ext gl_vol))"
proof -
  obtain a where a: "squaredNorm (p_to_hit ext gl_vol raycaster hit) = Fin a"
    using assms(2) isfinite_Fin by blast
  let ?pos = "Fin 0 < dot (p_to_hit ext gl_vol raycaster hit) (forward_dir ext gl_vol)"
  let ?v = "to_float (std_sqrt (Fin a))"
  have low: "\<not> Fin a < surface_distance_sq_min"
    and val: "x = times_float (if ?pos then Fin 1 else Fin (- 1)) ?v"
    using calc_distance_hit [OF assms(1)] assms(3) by (simp_all add: a split: if_splits)
  from root_float_cases [OF low] show ?thesis
  proof
    assume "?v = PInf"
    then show ?thesis
      unfolding val a by simp
  next
    assume "\<exists>w. ?v = Fin w \<and> 0 < w \<and> round_float w = Fin w \<and> round_float (- w) = Fin (- w)"
    then obtain w where "?v = Fin w" and "0 < w" and "round_float w = Fin w"
      and "round_float (- w) = Fin (- w)"
      by blast
    then show ?thesis
      unfolding val a by simp
  qed
qed

theorem calc_distance_sign_float_magnitude_witness:
  "closest_hit (scene_ext (Some (hit_at behind))) 0
     (translation (world_matrix (scene_ext (Some (hit_at behind))) (scene_volume 1 0)))
     (forward_dir (scene_ext (Some (hit_at behind))) (scene_volume 1 0)) () = Some (hit_at behind) \<and>
   isfinite (squaredNorm (p_to_hit (scene_ext (Some (hit_at behind))) (scene_volume 1 0) 0 (hit_at behind))) \<and>
   calc_distance (scene_ext (Some (hit_at behind))) (scene_volume 1 0) 0 () = Some (Fin (- 1)) \<and>
   dot (p_to_hit (scene_ext (Some (hit_at behind))) (scene_volume 1 0) 0 (hit_at behind))
       (forward_dir (scene_ext (Some (hit_at behind))) (scene_volume 1 0)) = Fin (- 1) \<and>
   \<bar>Fin (- 1)\<bar> =
     to_float (std_sqrt (squaredNorm
       (p_to_hit (scene_ext (Some (hit_at behind))) (scene_volume 1 0) 0 (hit_at behind)))) \<and>
   Fin (- 1) < Fin 0"
proof -
  have hit_b: "closest_hit (scene_ext (Some (hit_at behind))) 0
     (translation (world_matrix (scene_ext (Some (hit_at behind))) (scene_volume 1 0)))
     (forward_dir (scene_ext (Some (hit_at behind))) (scene_volume 1 0)) () = Some (hit_at behind)"
    by (rule scene_closest_hit)
  have off_b: "p_to_hit (scene_ext (Some (hit_at behind))) (scene_volume 1 0) 0 (hit_at behind) = Vec3d (Fin 0) (Fin 0) (Fin 1)"
    by (simp add: p_to_hit_def scene_ext_def scene_volume_def behind_def hit_at_def tr_identity_def
        mat_identity_def tr_point_def mat_vec_def vadd_def vsub_def round_float_def [symmetric])
  have d_b: "squaredNorm (p_to_hit (scene_ext (Some (hit_at behind))) (scene_volume 1 0) 0 (hit_at behind)) = Fin (1)"
    unfolding off_b by (simp add: squaredNorm_def round_float_def [symmetric])
  have dt_b: "dot (p_to_hit (scene_ext (Some (hit_at behind))) (scene_volume 1 0) 0 (hit_at behind))
              (forward_dir (scene_ext (Some (hit_at behind))) (scene_volume 1 0)) = Fin (- 1)"
    unfolding off_b scene_forward_dir by (simp add: ahead_def dot_def round_float_def [symmetric])
  have root_b: "to_float (std_sqrt (Fin (1))) = Fin (1)"
    by (simp add: round_float_def [symmetric])
  have val_b: "calc_distance (scene_ext (Some (hit_at behind))) (scene_volume 1 0) 0 () = Some (Fin (- 1))"
    unfolding calc_distance_hit [OF hit_b] d_b dt_b scene_max_squared_distance root_b
    by (simp add: surface_distance_sq_min_value round_float_def [symmetric])
  have fin: "isfinite (squaredNorm (p_to_hit (scene_ext (Some (hit_at behind))) (scene_volume 1 0) 0
      (hit_at behind)))"
    by (simp add: d_b)
  show ?thesis
    using hit_b fin val_b dt_b calc_distance_sign_float_magnitude [OF hit_b fin val_b] by simp
qed

text \<open>
  C7 as stated fails. With the hit at the distance \<open>1 + 2 powi - 30\<close> ahead, the norm of the
  offset is the double \<open>1.0000000009313226\<close> and the query returns the float \<open>1\<close>.
\<close>

theorem calc_distance_magnitude_rounded:
  "std_sqrt (squaredNorm (p_to_hit (scene_ext (Some fine_hit)) (scene_volume 1 0) 0 fine_hit)) =
     Fin (1073741825 / 1073741824) \<and>
   calc_distance (scene_ext (Some fine_hit)) (scene_volume 1 0) 0 () = Some (Fin 1) \<and>
   \<bar>Fin 1\<bar> \<noteq> Fin (1073741825 / 1073741824)"
proof -
  have hit_fine: "closest_hit (scene_ext (Some fine_hit)) 0
     (translation (world_matrix (scene_ext (Some fine_hit)) (scene_volume 1 0)))
     (forward_dir (scene_ext (Some fine_hit)) (scene_volume 1 0)) () = Some fine_hit"
    by (rule scene_closest_hit)
  have off_fine: "p_to_hit (scene_ext (Some fine_hit)) (scene_volume 1 0) 0 fine_hit = Vec3d (Fin 0) (Fin 0) (Fin (- (1073741825 / 1073741824)))"
    by (simp add: p_to_hit_def scene_ext_def scene_volume_def fine_hit_def hit_at_def tr_identity_def
        mat_identity_def tr_point_def mat_vec_def vadd_def vsub_def fine_round_1 fine_round_2 fine_round_3 fine_round_4 fine_round_5 fine_round_6 fine_round_7 fine_round_8)
  have d_fine: "squaredNorm (p_to_hit (scene_ext (Some fine_hit)) (scene_volume 1 0) 0 fine_hit) = Fin (536870913 / 536870912)"
    unfolding off_fine by (simp add: squaredNorm_def fine_round_1 fine_round_2 fine_round_3 fine_round_4 fine_round_5 fine_round_6 fine_round_7 fine_round_8)
  have dt_fine: "dot (p_to_hit (scene_ext (Some fine_hit)) (scene_volume 1 0) 0 fine_hit)
              (forward_dir (scene_ext (Some fine_hit)) (scene_volume 1 0)) = Fin (1073741825 / 1073741824)"
    unfolding off_fine scene_forward_dir by (simp add: ahead_def dot_def fine_round_1 fine_round_2 fine_round_3 fine_round_4 fine_round_5 fine_round_6 fine_round_7 fine_round_8)
  have root_fine: "to_float (std_sqrt (Fin (536870913 / 536870912))) = Fin (1)"
    by (simp add: fine_round_1 fine_round_2 fine_round_3 fine_round_4 fine_round_5 fine_round_6 fine_round_7 fine_round_8)
  have val_fine: "calc_distance (scene_ext (Some fine_hit)) (scene_volume 1 0) 0 () = Some (Fin (1))"
    unfolding calc_distance_hit [OF hit_fine] d_fine dt_fine scene_max_squared_distance root_fine
    by (simp add: surface_distance_sq_min_value fine_round_1 fine_round_2 fine_round_3 fine_round_4 fine_round_5 fine_round_6 fine_round_7 fine_round_8)
  have norm: "std_sqrt (Fin (536870913 / 536870912)) = Fin (1073741825 / 1073741824)"
    by (simp add: fine_round_1 fine_round_2 fine_round_3 fine_round_4 fine_round_5 fine_round_6 fine_round_7 fine_round_8)
  show ?thesis
    unfolding d_fine norm using val_fine by simp
qed

section \<open>Face to camera\<close>

lemma AngleAxis_quarter_turn: "AngleAxis M_PI_2 (Vec3d (Fin 0) (Fin 1) (Fin 0)) = quarter_turn"
  by (simp add: AngleAxis_def M_PI_2_def quarter_turn_def vscale_def Let_def)

lemma tr_inverse_quarter_turn:
  "tr_point (tr_inverse quarter_turn) (Vec3d (Fin 0) (Fin 0) (Fin 0)) = Vec3d (Fin 0) (Fin 0) (Fin 0)"
  by (simp add: tr_inverse_def mat_inverse_def mat_neg_def quarter_turn_def tr_point_def mat_vec_def
      cross_def vadd_def vneg_def Let_def)

lemma scene_cam_dir_tr:
  "normalized (mat_vec (linear_part (tr_inverse (world_matrix_fixed_selection (scene_ext hh) scene)))
      behind) = behind"
proof -
  have "world_matrix_fixed_selection (scene_ext hh) scene = tr_identity"
    by (simp add: world_matrix_fixed_selection_def world_matrix_fixed_def get_selected_gl_volume_def
        get_model_volume_def get_model_object_def get_model_volume_of_def lookup_def scene_def
        scene_ext_def scene_volume_def scene_object_def text_volume_def)
  moreover have "linear_part (tr_inverse tr_identity) = mat_identity"
    by (simp add: tr_inverse_def mat_inverse_def tr_identity_def mat_identity_def cross_def Let_def)
  ultimately show ?thesis
    by (simp add: mat_identity_def mat_vec_def behind_def normalized_def squaredNorm_def vdiv_def
        Let_def)
qed

text \<open>
  A volume that already faces the camera within the tolerance is left alone, and so is the
  canvas when nothing is selected.
\<close>

lemma face_to_camera_already_facing:
  assumes "is_approx_vec ext
             (normalized (mat_vec (linear_part (tr_inverse (world_matrix_fixed_selection ext canvas)))
                (get_dir_forward ext camera)))
             (Vec3d (Fin 0) (Fin 0) (Fin (- 1)))"
  shows "face_selected_volume_to_camera ext camera canvas = Inr (False, canvas)"
  using assms by (simp add: face_selected_volume_to_camera_def Let_def split: list.splits)

lemma face_to_camera_no_selection:
  "selection canvas = [] \<Longrightarrow> face_selected_volume_to_camera ext camera canvas = Inr (False, canvas)"
  by (simp add: face_selected_volume_to_camera_def Let_def)

text \<open>
  C5 at the input where the code leaves it. The text of the scene faces away from a camera
  that looks along \<open>(0, 0, 1)\<close>: the operation turns the volume by \<open>M_PI_2\<close> about Y, a
  quarter turn, in the scene and in the model. The forward axis \<open>(0, 0, - 1)\<close> of the volume
  comes to \<open>(- 1, 0, 0)\<close>, at a right angle to the camera direction.
\<close>

theorem face_to_camera_opposite_quarter_turn:
  "face_selected_volume_to_camera (scene_ext None) behind scene =
     Inr (True,
          scene\<lparr>gl_volumes := [scene_volume 0 0,
                                 (scene_volume 1 0)\<lparr>volume_transformation := quarter_turn\<rparr>,
                                 scene_volume 1 1],
                objects := [scene_object\<lparr>volumes :=
                                [part_volume, text_volume\<lparr>volume_matrix := quarter_turn\<rparr>]\<rparr>]\<rparr>) \<and>
   mat_vec (linear_part quarter_turn) ahead = Vec3d (Fin (- 1)) (Fin 0) (Fin 0)"
proof -
  have sel: "selection scene = [1]"
    by (simp add: scene_def)
  have cam: "get_dir_forward (scene_ext None) behind = behind"
    by (simp add: scene_ext_def)
  have far: "\<not> is_approx_vec (scene_ext None) behind (Vec3d (Fin 0) (Fin 0) (Fin (- 1)))"
    by (simp add: scene_ext_def approx_def behind_def)
  have opposite: "is_approx_vec (scene_ext None) behind (vneg (Vec3d (Fin 0) (Fin 0) (Fin (- 1))))"
    by (simp add: scene_ext_def approx_def behind_def vneg_def)
  have vol: "gl_volumes scene ! 1 = scene_volume 1 0" and len: "\<not> length (gl_volumes scene) \<le> 1"
    by (simp_all add: scene_def)
  have tr: "volume_transformation (scene_volume 1 0) = tr_identity"
    by (simp add: scene_volume_def)
  let ?zero = "Vec3d (Fin 0) (Fin 0) (Fin 0)"
  have o: "tr_point tr_identity ?zero = ?zero"
    by (simp add: tr_point_def tr_identity_def mat_identity_def mat_vec_def vadd_def)
  have n: "vneg ?zero = ?zero"
    by (simp add: vneg_def)
  have t1: "translate tr_identity ?zero = tr_identity"
    by (simp add: translate_def tr_identity_def mat_identity_def mat_vec_def vadd_def)
  have m: "tr_mul tr_identity quarter_turn = quarter_turn"
    by (simp add: tr_mul_def tr_identity_def mat_identity_def quarter_turn_def mat_mul_def
        mat_vec_def vadd_def)
  have t2: "translate quarter_turn ?zero = quarter_turn"
    by (simp add: translate_def quarter_turn_def mat_vec_def vadd_def)
  have res: "translate (tr_mul (translate tr_identity (vneg (tr_point tr_identity ?zero)))
                 quarter_turn)
               (tr_point (tr_inverse quarter_turn) (tr_point tr_identity ?zero)) =
             quarter_turn"
    by (simp only: o n t1 m tr_inverse_quarter_turn t2)
  have mv: "get_model_volume (scene_volume 1 0) (objects scene) = Some text_volume"
    by (simp add: get_model_volume_def get_model_object_def get_model_volume_of_def lookup_def
        scene_def scene_volume_def scene_object_def)
  have model: "set_transformation (scene_volume 1 0) quarter_turn (objects scene) =
      [scene_object\<lparr>volumes := [part_volume, text_volume\<lparr>volume_matrix := quarter_turn\<rparr>]\<rparr>]"
    by (simp add: set_transformation_def scene_def scene_volume_def scene_object_def Let_def)
  have run: "face_selected_volume_to_camera (scene_ext None) behind scene =
     Inr (True,
          scene\<lparr>gl_volumes := (gl_volumes scene)
                   [1 := (scene_volume 1 0)\<lparr>volume_transformation := quarter_turn\<rparr>],
                objects := [scene_object\<lparr>volumes :=
                                [part_volume, text_volume\<lparr>volume_matrix := quarter_turn\<rparr>]\<rparr>]\<rparr>)"
    unfolding face_selected_volume_to_camera_def Let_def sel list.case
    by (simp only: cam scene_cam_dir_tr far opposite vol len tr res mv model AngleAxis_quarter_turn
        if_True if_False option.case)
  have turned: "mat_vec (linear_part quarter_turn) ahead = Vec3d (Fin (- 1)) (Fin 0) (Fin 0)"
    by (simp add: quarter_turn_def ahead_def mat_vec_def)
  show ?thesis
    using run turned by (simp add: scene_def)
qed

end
